theory Spec2Isabelle
  imports Complex_Main "HOL-Library.AList" "HOL-Library.Multiset"
begin

section \<open>Data model\<close>

text \<open>
  The TypeScript type \<open>number\<close> is modelled as \<^typ>\<open>real\<close>. The stats are whole numbers
  in the game, and their sums, differences and comparisons are exact. The three formulas
  that multiply by a fraction and take \<open>Math.floor\<close> (\<open>calculateSkillEffect\<close>,
  \<open>calculatePassiveEffect\<close>, \<open>calculateResourceGain\<close>) are evaluated as the program
  evaluates them, in double precision with a rounding after every operation, since the
  floor shows the rounding. Objects that the program shares by reference (combat entities,
  skills) live in a heap, a total function from references to objects, since a TypeScript
  reference always denotes an object. Record fields keep the names of the source; a field
  whose name occurs in two interfaces, or is reserved, gets a prefix.
\<close>

subsection \<open>Double-precision arithmetic\<close>

text \<open>
  \<open>fl x\<close> is the IEEE 754 double nearest to \<open>x\<close>, a tie going to the even significand: a
  number in \<open>[2 ^ e, 2 ^ (e + 1))\<close> is rounded to a multiple of \<open>2 ^ (e - 52)\<close>. Overflow,
  underflow and \<open>NaN\<close> are outside the model. The operators \<open>+\<close>, \<open>-\<close>, \<open>*\<close> and \<open>/\<close> on
  doubles are the exact operations followed by \<open>fl\<close>; a decimal literal such as \<open>0.1\<close>
  denotes \<open>fl (1 / 10)\<close>.
\<close>

definition round_even :: "real \<Rightarrow> int" where
  "round_even x =
     (let f = \<lfloor>x\<rfloor>; d = x - of_int f
      in if d < 1 / 2 then f else if 1 / 2 < d then f + 1 else if even f then f else f + 1)"

definition fl :: "real \<Rightarrow> real" where
  "fl x =
     (if x = 0 then 0
      else (let e = \<lfloor>log 2 \<bar>x\<bar>\<rfloor> - 52
            in of_int (round_even (x / 2 powr of_int e)) * 2 powr of_int e))"

definition fadd :: "real \<Rightarrow> real \<Rightarrow> real" where
  "fadd a b = fl (a + b)"

definition fsub :: "real \<Rightarrow> real \<Rightarrow> real" where
  "fsub a b = fl (a - b)"

definition fmul :: "real \<Rightarrow> real \<Rightarrow> real" where
  "fmul a b = fl (a * b)"

definition fdiv :: "real \<Rightarrow> real \<Rightarrow> real" where
  "fdiv a b = fl (a / b)"

subsection \<open>Entities and skills\<close>

type_synonym eref = nat
type_synonym sref = nat

record CombatStats =
  level :: real
  maxHealth :: real
  currentHealth :: real
  attack :: real
  defense :: real
  speed :: real
  maxEnergy :: real
  currentEnergy :: real

record Vector3 =
  vx :: real
  vy :: real
  vz :: real

record CombatEntity =
  entity_id :: string
  entity_name :: string
  stats :: CombatStats
  position :: Vector3
  isPlayer :: bool

datatype CombatState = WAITING | IN_PROGRESS | VICTORY | DEFEAT

datatype SkillType = ATTACK | HEAL | BUFF | DEBUFF

datatype TargetType = SELF | SINGLE_ENEMY | ALL_ENEMIES | AREA

record SkillEffect =
  se_type :: SkillType
  se_value :: real
  se_duration :: "real option"
  se_radius :: "real option"

record Skill =
  skill_id :: string
  skill_name :: string
  skill_type :: SkillType
  targetType :: TargetType
  effects :: "SkillEffect list"
  cooldown :: real
  currentCooldown :: real
  energyCost :: real

record SkillResult =
  success :: bool
  targets :: "eref list"
  result_effects :: "(eref \<times> SkillEffect \<times> real) list"
  message :: string

record Heap =
  ents :: "eref \<Rightarrow> CombatEntity"
  skillObjs :: "sref \<Rightarrow> Skill"

text \<open>In-place assignments to the fields of a heap object.\<close>

definition set_currentHealth :: "eref \<Rightarrow> real \<Rightarrow> Heap \<Rightarrow> Heap" where
  "set_currentHealth r v h =
     h\<lparr>ents := (ents h)(r := (ents h r)\<lparr>stats := (stats (ents h r))\<lparr>currentHealth := v\<rparr>\<rparr>)\<rparr>"

definition set_currentEnergy :: "eref \<Rightarrow> real \<Rightarrow> Heap \<Rightarrow> Heap" where
  "set_currentEnergy r v h =
     h\<lparr>ents := (ents h)(r := (ents h r)\<lparr>stats := (stats (ents h r))\<lparr>currentEnergy := v\<rparr>\<rparr>)\<rparr>"

definition set_currentCooldown :: "sref \<Rightarrow> real \<Rightarrow> Heap \<Rightarrow> Heap" where
  "set_currentCooldown r v h =
     h\<lparr>skillObjs := (skillObjs h)(r := (skillObjs h r)\<lparr>currentCooldown := v\<rparr>)\<rparr>"

definition set_position :: "eref \<Rightarrow> Vector3 \<Rightarrow> Heap \<Rightarrow> Heap" where
  "set_position r p h = h\<lparr>ents := (ents h)(r := (ents h r)\<lparr>position := p\<rparr>)\<rparr>"

section \<open>SkillManager\<close>

text \<open>
  The loadout is the array of slots; slot \<open>i\<close> holds a reference to a skill or \<open>null\<close>.
\<close>

record SkillManager =
  skill_slots :: "sref option list"
  skill_maxSlots :: nat

definition calculateSkillEffect :: "real \<Rightarrow> CombatEntity \<Rightarrow> CombatEntity \<Rightarrow> real" where
  "calculateSkillEffect baseValue src tgt =
     (let attackMultiplier = fdiv (attack (stats src)) 100;
          defenseMultiplier = fdiv (defense (stats tgt)) 100
      in of_int \<lfloor>fmul (fmul baseValue attackMultiplier) (fsub 1 defenseMultiplier)\<rfloor>)"

definition executeSkill :: "sref \<Rightarrow> eref \<Rightarrow> eref list \<Rightarrow> Heap \<Rightarrow> SkillResult \<times> Heap" where
  "executeSkill sk src tgts h =
     (if currentCooldown (skillObjs h sk) > 0 then
        (\<lparr>success = False, targets = [], result_effects = [],
          message = ''Skill is on cooldown''\<rparr>, h)
      else if currentEnergy (stats (ents h src)) < energyCost (skillObjs h sk) then
        (\<lparr>success = False, targets = [], result_effects = [],
          message = ''Not enough energy''\<rparr>, h)
      else
        (let effs = concat (map (\<lambda>t. map (\<lambda>e.
                      (t, e, calculateSkillEffect (se_value e) (ents h src) (ents h t)))
                      (effects (skillObjs h sk))) tgts);
             h1 = set_currentCooldown sk (cooldown (skillObjs h sk)) h;
             h2 = set_currentEnergy src
                    (currentEnergy (stats (ents h1 src)) - energyCost (skillObjs h1 sk)) h1
         in (\<lparr>success = True, targets = tgts, result_effects = effs,
              message = skill_name (skillObjs h2 sk) @ '' executed successfully''\<rparr>, h2)))"

fun updateCooldowns_slots :: "sref option list \<Rightarrow> Heap \<Rightarrow> Heap" where
  "updateCooldowns_slots [] h = h"
| "updateCooldowns_slots (None # sl) h = updateCooldowns_slots sl h"
| "updateCooldowns_slots (Some s # sl) h =
     updateCooldowns_slots sl
       (if currentCooldown (skillObjs h s) > 0
        then set_currentCooldown s (currentCooldown (skillObjs h s) - 1) h else h)"

definition updateCooldowns :: "SkillManager \<Rightarrow> Heap \<Rightarrow> Heap" where
  "updateCooldowns sm h = updateCooldowns_slots (skill_slots sm) h"

definition getAvailableSkills :: "SkillManager \<Rightarrow> Heap \<Rightarrow> eref \<Rightarrow> sref list" where
  "getAvailableSkills sm h src =
     filter (\<lambda>s. currentCooldown (skillObjs h s) = 0
                 \<and> currentEnergy (stats (ents h src)) \<ge> energyCost (skillObjs h s))
       (concat (map (\<lambda>sl. case sl of None \<Rightarrow> [] | Some s \<Rightarrow> [s]) (skill_slots sm)))"

section \<open>PassiveManager\<close>

datatype PassiveTrigger = ON_ATTACK | ON_DAMAGED | ON_KILL | ON_HEAL | PERMANENT

datatype PassiveType =
  STAT_BOOST | LIFE_STEAL | DAMAGE_REFLECT | CRIT_CHANCE | DODGE_CHANCE | HEAL_BOOST

record PassiveEffect =
  pe_type :: PassiveType
  pe_value :: real
  chance :: "real option"
  pe_duration :: "real option"

record Passive =
  passive_id :: string
  passive_name :: string
  trigger :: PassiveTrigger
  passive_effects :: "PassiveEffect list"
  passive_level :: real
  passive_maxLevel :: real

record PassiveResult =
  pr_passive :: Passive
  triggered :: bool
  pr_source :: eref
  pr_target :: "eref option"
  pr_effects :: "(PassiveType \<times> real) list"
  pr_message :: string

record PassiveManager =
  passive_slots :: "Passive option list"
  passive_maxSlots :: nat

text \<open>
  \<open>Math.random\<close> is an external source of numbers: the model reads them from a sequence
  \<open>rnd\<close>, and a position in it counts the calls made so far.

  \<open>rollEffects\<close> is the call \<open>passive.effects.every(effect => !effect.chance ||
  Math.random() < effect.chance)\<close>: an absent or zero chance passes without a call, and
  \<open>every\<close> stops at the first effect that fails.
\<close>

fun rollEffects :: "PassiveEffect list \<Rightarrow> (nat \<Rightarrow> real) \<Rightarrow> nat \<Rightarrow> bool \<times> nat" where
  "rollEffects [] rnd i = (True, i)"
| "rollEffects (e # es) rnd i =
     (case chance e of
        None \<Rightarrow> rollEffects es rnd i
      | Some c \<Rightarrow>
          if c = 0 then rollEffects es rnd i
          else if rnd i < c then rollEffects es rnd (Suc i)
          else (False, Suc i))"

definition rollPassive :: "Passive \<Rightarrow> (nat \<Rightarrow> real) \<Rightarrow> nat \<Rightarrow> bool \<times> nat" where
  "rollPassive p rnd i =
     (if trigger p = PERMANENT then (True, i) else rollEffects (passive_effects p) rnd i)"

text \<open>\<open>triggerValue || 1\<close>: an absent or zero trigger value counts as 1.\<close>

definition calculatePassiveEffect :: "real \<Rightarrow> CombatEntity \<Rightarrow> real option \<Rightarrow> real" where
  "calculatePassiveEffect baseValue src triggerValue =
     (let levelMultiplier = fadd 1 (fmul (fsub (level (stats src)) 1) (fl (1 / 10)))
      in of_int \<lfloor>fmul (fmul baseValue levelMultiplier)
                  (case triggerValue of None \<Rightarrow> 1 | Some v \<Rightarrow> if v = 0 then 1 else v)\<rfloor>)"

fun checkTrigger_each ::
  "Passive list \<Rightarrow> Heap \<Rightarrow> eref \<Rightarrow> eref option \<Rightarrow> real option \<Rightarrow> (nat \<Rightarrow> real) \<Rightarrow> nat
     \<Rightarrow> PassiveResult list \<times> nat" where
  "checkTrigger_each [] h src tgt v rnd i = ([], i)"
| "checkTrigger_each (p # ps) h src tgt v rnd i =
     (let (trig, i1) = rollPassive p rnd i;
          (rest, i2) = checkTrigger_each ps h src tgt v rnd i1
      in if trig then
           (\<lparr>pr_passive = p, triggered = True, pr_source = src, pr_target = tgt,
             pr_effects = map (\<lambda>e. (pe_type e, calculatePassiveEffect (pe_value e) (ents h src) v))
                            (passive_effects p),
             pr_message = passive_name p @ '' triggered''\<rparr> # rest, i2)
         else (rest, i2))"

definition getActivePassives :: "PassiveManager \<Rightarrow> Passive list" where
  "getActivePassives pm =
     concat (map (\<lambda>sl. case sl of None \<Rightarrow> [] | Some p \<Rightarrow> [p]) (passive_slots pm))"

definition checkTrigger ::
  "PassiveManager \<Rightarrow> PassiveTrigger \<Rightarrow> Heap \<Rightarrow> eref \<Rightarrow> eref option \<Rightarrow> real option
     \<Rightarrow> (nat \<Rightarrow> real) \<Rightarrow> nat \<Rightarrow> PassiveResult list \<times> nat" where
  "checkTrigger pm trg h src tgt v rnd i =
     checkTrigger_each (filter (\<lambda>p. trigger p = trg) (getActivePassives pm)) h src tgt v rnd i"

text \<open>One \<open>STAT_BOOST\<close> effect of a permanent passive, applied to the stats of an entity.\<close>

definition applyStatBoost :: "PassiveEffect \<Rightarrow> CombatStats \<Rightarrow> CombatStats" where
  "applyStatBoost e s =
     (if pe_type e = STAT_BOOST then
        (let s1 = s\<lparr>attack := attack s + pe_value e\<rparr>;
             s2 = s1\<lparr>defense := defense s1 + pe_value e\<rparr>;
             s3 = s2\<lparr>maxHealth := maxHealth s2 + pe_value e * 10\<rparr>
         in s3\<lparr>currentHealth := min (currentHealth s3 + pe_value e * 10) (maxHealth s3)\<rparr>)
      else s)"

definition applyPermanentPassives_stats :: "PassiveManager \<Rightarrow> CombatStats \<Rightarrow> CombatStats" where
  "applyPermanentPassives_stats pm s =
     fold applyStatBoost
       (concat (map passive_effects (filter (\<lambda>p. trigger p = PERMANENT) (getActivePassives pm)))) s"

definition applyPermanentPassives :: "PassiveManager \<Rightarrow> eref \<Rightarrow> Heap \<Rightarrow> Heap" where
  "applyPermanentPassives pm r h =
     h\<lparr>ents := (ents h)(r := (ents h r)\<lparr>stats := applyPermanentPassives_stats pm (stats (ents h r))\<rparr>)\<rparr>"

section \<open>GearManager\<close>

datatype GearSlot = HEAD | CHEST | LEGS | FEET | WEAPON | OFFHAND | ACCESSORY1 | ACCESSORY2

datatype GearRarity = COMMON | UNCOMMON | RARE | EPIC | LEGENDARY

record GearStats =
  g_attack :: real
  g_defense :: real
  g_health :: real
  g_speed :: real
  g_energy :: real

record GearItem =
  gear_id :: string
  gear_name :: string
  slot :: GearSlot
  rarity :: GearRarity
  gear_level :: real
  baseStats :: GearStats
  setId :: "string option"

record GearSetBonus =
  pieces :: real
  bonus_stats :: GearStats

record GearSet =
  set_id :: string
  set_name :: string
  bonuses :: "GearSetBonus list"

record GearTotalStats =
  total_stats :: GearStats
  setBonuses :: "(string \<times> real list) list"

text \<open>
  The loadout object has one key per slot; \<open>gearSets\<close> is a \<open>Map\<close>, kept as an association
  list in insertion order.
\<close>

record GearManager =
  loadout :: "GearSlot \<Rightarrow> GearItem option"
  gearSets :: "(string \<times> GearSet) list"

text \<open>\<open>Object.values(this.loadout)\<close> lists the slots in the order the keys were created.\<close>

definition loadout_values :: "(GearSlot \<Rightarrow> GearItem option) \<Rightarrow> GearItem option list" where
  "loadout_values l =
     map l [HEAD, CHEST, LEGS, FEET, WEAPON, OFFHAND, ACCESSORY1, ACCESSORY2]"

definition zeroStats :: GearStats where
  "zeroStats = \<lparr>g_attack = 0, g_defense = 0, g_health = 0, g_speed = 0, g_energy = 0\<rparr>"

text \<open>
  \<open>Object.entries(s).forEach(([stat, value]) => acc[stat] += value)\<close>: every stat of \<open>s\<close> is
  added to the stat of the same name.
\<close>

definition addStats :: "GearStats \<Rightarrow> GearStats \<Rightarrow> GearStats" where
  "addStats s acc =
     \<lparr>g_attack = g_attack acc + g_attack s, g_defense = g_defense acc + g_defense s,
      g_health = g_health acc + g_health s, g_speed = g_speed acc + g_speed s,
      g_energy = g_energy acc + g_energy s\<rparr>"

text \<open>
  Counting the pieces of each set: \<open>if (item?.setId) setPieces.set(item.setId,
  (setPieces.get(item.setId) || 0) + 1)\<close>. An absent or empty set id is skipped; a new key
  goes to the end of the \<open>Map\<close> and a known key keeps its place.
\<close>

definition countPiece :: "GearItem option \<Rightarrow> (string \<times> nat) list \<Rightarrow> (string \<times> nat) list" where
  "countPiece item sp =
     (case item of
        None \<Rightarrow> sp
      | Some it \<Rightarrow>
          (case setId it of
             None \<Rightarrow> sp
           | Some sid \<Rightarrow>
               if sid = [] then sp
               else AList.update sid ((case map_of sp sid of None \<Rightarrow> 0 | Some c \<Rightarrow> c) + 1) sp))"

definition countSetPieces :: "GearManager \<Rightarrow> (string \<times> nat) list" where
  "countSetPieces gm = fold countPiece (loadout_values (loadout gm)) []"

text \<open>The tiers of a set that \<open>count\<close> pieces unlock: \<open>filter(bonus => bonus.pieces <= count)\<close>.\<close>

definition activeTiers :: "GearSet \<Rightarrow> nat \<Rightarrow> GearSetBonus list" where
  "activeTiers s c = filter (\<lambda>b. pieces b \<le> real c) (bonuses s)"

definition applySetEntry :: "GearManager \<Rightarrow> string \<times> nat \<Rightarrow> GearStats \<Rightarrow> GearStats" where
  "applySetEntry gm entry acc =
     (case map_of (gearSets gm) (fst entry) of
        None \<Rightarrow> acc
      | Some s \<Rightarrow> fold (\<lambda>b. addStats (bonus_stats b)) (activeTiers s (snd entry)) acc)"

definition calculateSetBonuses :: "GearManager \<Rightarrow> GearStats" where
  "calculateSetBonuses gm = fold (applySetEntry gm) (countSetPieces gm) zeroStats"

definition getActiveSetBonuses :: "GearManager \<Rightarrow> (string \<times> real list) list" where
  "getActiveSetBonuses gm =
     concat (map (\<lambda>(sid, c).
       (case map_of (gearSets gm) sid of
          None \<Rightarrow> []
        | Some s \<Rightarrow> if activeTiers s c = [] then [] else [(sid, map pieces (activeTiers s c))]))
       (countSetPieces gm))"

definition sumBaseStats :: "GearManager \<Rightarrow> GearStats" where
  "sumBaseStats gm =
     fold (\<lambda>item acc. case item of None \<Rightarrow> acc | Some it \<Rightarrow> addStats (baseStats it) acc)
       (loadout_values (loadout gm)) zeroStats"

definition calculateTotalStats :: "GearManager \<Rightarrow> GearTotalStats" where
  "calculateTotalStats gm =
     \<lparr>total_stats = addStats (calculateSetBonuses gm) (sumBaseStats gm),
      setBonuses = getActiveSetBonuses gm\<rparr>"

definition applyGearStats_stats :: "GearManager \<Rightarrow> CombatStats \<Rightarrow> CombatStats" where
  "applyGearStats_stats gm s =
     (let t = total_stats (calculateTotalStats gm);
          s1 = s\<lparr>attack := attack s + g_attack t\<rparr>;
          s2 = s1\<lparr>defense := defense s1 + g_defense t\<rparr>;
          s3 = s2\<lparr>maxHealth := maxHealth s2 + g_health t\<rparr>;
          s4 = s3\<lparr>currentHealth := min (currentHealth s3 + g_health t) (maxHealth s3)\<rparr>;
          s5 = s4\<lparr>speed := speed s4 + g_speed t\<rparr>;
          s6 = s5\<lparr>maxEnergy := maxEnergy s5 + g_energy t\<rparr>
      in s6\<lparr>currentEnergy := min (currentEnergy s6 + g_energy t) (maxEnergy s6)\<rparr>)"

definition applyGearStats :: "GearManager \<Rightarrow> eref \<Rightarrow> Heap \<Rightarrow> Heap" where
  "applyGearStats gm r h =
     h\<lparr>ents := (ents h)(r := (ents h r)\<lparr>stats := applyGearStats_stats gm (stats (ents h r))\<rparr>)\<rparr>"

text \<open>
  For the statement of the set bonus: the set ids of the equipped pieces, one entry per
  piece in slot order; the equipped items; and the stat blocks of the tiers that the
  counted pieces unlock, set by set.
\<close>

definition setIdOf :: "GearItem option \<Rightarrow> string list" where
  "setIdOf item =
     (case item of
        None \<Rightarrow> []
      | Some it \<Rightarrow> (case setId it of None \<Rightarrow> [] | Some sid \<Rightarrow> if sid = [] then [] else [sid]))"

definition equippedSetIds :: "GearManager \<Rightarrow> string list" where
  "equippedSetIds gm = concat (map setIdOf (loadout_values (loadout gm)))"

definition equippedItems :: "GearManager \<Rightarrow> GearItem list" where
  "equippedItems gm =
     concat (map (\<lambda>item. case item of None \<Rightarrow> [] | Some it \<Rightarrow> [it]) (loadout_values (loadout gm)))"

definition unlockedTiers :: "GearManager \<Rightarrow> string \<times> nat \<Rightarrow> GearSetBonus list" where
  "unlockedTiers gm entry =
     (case map_of (gearSets gm) (fst entry) of
        None \<Rightarrow> []
      | Some s \<Rightarrow> filter (\<lambda>b. pieces b \<le> real (snd entry)) (bonuses s))"

definition activeBonusStats :: "GearManager \<Rightarrow> GearStats list" where
  "activeBonusStats gm = map bonus_stats (concat (map (unlockedTiers gm) (countSetPieces gm)))"

text \<open>The counting loop: keys stay distinct and every key holds the number of its pieces.\<close>

definition counted :: "(string \<times> nat) list \<Rightarrow> string list \<Rightarrow> bool" where
  "counted sp ids \<longleftrightarrow>
     distinct (map fst sp)
     \<and> (\<forall>sid. map_of sp sid = (if sid \<in> set ids then Some (count_list ids sid) else None))"

section \<open>ProgressionManager\<close>

datatype RunOutcome = RUN_VICTORY | RUN_DEFEAT

record RunStats =
  runId :: string
  startTime :: real
  endTime :: real
  enemiesDefeated :: real
  damageDealt :: real
  damageTaken :: real
  resourcesGained :: real
  run_result :: RunOutcome
  difficulty :: real
  wave :: real

datatype MetaUpgradeType =
  DAMAGE_BOOST | HEALTH_BOOST | DEFENSE_BOOST | SPEED_BOOST | RESOURCE_GAIN | XP_GAIN
  | ENERGY_BOOST | SKILL_COOLDOWN

record MetaUpgrade =
  upgrade_id :: string
  upgrade_name :: string
  upgrade_type :: MetaUpgradeType
  upgrade_value :: real
  cost :: real
  maxLevel :: real
  currentLevel :: real

record Statistics =
  totalEnemiesDefeated :: real
  totalDamageDealt :: real
  totalDamageTaken :: real
  totalResourcesGained :: real
  totalPlayTime :: real

text \<open>
  \<open>metaUpgrades\<close> is a \<open>Map\<close> from upgrade ids to upgrade objects, kept as an association
  list in insertion order; \<open>storage\<close> is the copy of the progress that \<open>saveProgress\<close>
  last wrote to \<open>localStorage\<close>.
\<close>

record PlayerProgress =
  totalRuns :: real
  bestRun :: "RunStats option"
  resources :: real
  metaUpgrades :: "(string \<times> MetaUpgrade) list"
  unlockedContent :: "string list"
  statistics :: Statistics

record ProgressionManager =
  currentRun :: "RunStats option"
  progress :: PlayerProgress
  storage :: "PlayerProgress option"

definition saveProgress :: "ProgressionManager \<Rightarrow> ProgressionManager" where
  "saveProgress pm = pm\<lparr>storage := Some (progress pm)\<rparr>"

definition purchaseUpgrade :: "string \<Rightarrow> ProgressionManager \<Rightarrow> bool \<times> ProgressionManager" where
  "purchaseUpgrade upgradeId pm =
     (case map_of (metaUpgrades (progress pm)) upgradeId of
        None \<Rightarrow> (False, pm)
      | Some u \<Rightarrow>
          if currentLevel u \<ge> maxLevel u \<or> resources (progress pm) < cost u then (False, pm)
          else
            (let p1 = (progress pm)\<lparr>resources := resources (progress pm) - cost u\<rparr>;
                 u1 = u\<lparr>currentLevel := currentLevel u + 1\<rparr>;
                 u2 = u1\<lparr>cost := of_int \<lfloor>cost u1 * (3 / 2)\<rfloor>\<rparr>;
                 p2 = p1\<lparr>metaUpgrades := AList.update upgradeId u2 (metaUpgrades p1)\<rparr>
             in (True, saveProgress (pm\<lparr>progress := p2\<rparr>))))"

text \<open>The first upgrade of the type, in the order of the \<open>Map\<close>, decides; none gives 0.\<close>

definition getMetaUpgradeEffect :: "PlayerProgress \<Rightarrow> MetaUpgradeType \<Rightarrow> real" where
  "getMetaUpgradeEffect p ty =
     (case List.find (\<lambda>u. upgrade_type u = ty) (map snd (metaUpgrades p)) of
        None \<Rightarrow> 0
      | Some u \<Rightarrow> fmul (upgrade_value u) (currentLevel u))"

definition calculateResourceGain :: "PlayerProgress \<Rightarrow> real \<Rightarrow> real" where
  "calculateResourceGain p enemyLevel =
     (let baseGain = fmul enemyLevel 5;
          resourceMultiplier = fadd 1 (getMetaUpgradeEffect p RESOURCE_GAIN)
      in of_int \<lfloor>fmul baseGain resourceMultiplier\<rfloor>)"

datatype CombatEventType = damage_dealt | damage_taken | enemy_defeated

definition trackCombatEvent :: "CombatEventType \<Rightarrow> real \<Rightarrow> ProgressionManager \<Rightarrow> ProgressionManager" where
  "trackCombatEvent ty v pm =
     (case currentRun pm of
        None \<Rightarrow> pm
      | Some r \<Rightarrow>
          (case ty of
             damage_dealt \<Rightarrow> pm\<lparr>currentRun := Some (r\<lparr>damageDealt := damageDealt r + v\<rparr>)\<rparr>
           | damage_taken \<Rightarrow> pm\<lparr>currentRun := Some (r\<lparr>damageTaken := damageTaken r + v\<rparr>)\<rparr>
           | enemy_defeated \<Rightarrow>
               pm\<lparr>currentRun := Some (r\<lparr>enemiesDefeated := enemiesDefeated r + 1,
                  resourcesGained := resourcesGained r + calculateResourceGain (progress pm) v\<rparr>)\<rparr>))"

section \<open>CombatManager\<close>

text \<open>
  An action carries references to its source and target entities and to its skill. The
  \<open>targetPosition\<close> of a move is the position object of the target entity itself, so it
  is the reference to that entity.
\<close>

datatype CombatAction =
  MOVE_action eref eref
  | ATTACK_action eref eref real
  | SKILL_action eref eref sref

fun action_source :: "CombatAction \<Rightarrow> eref" where
  "action_source (MOVE_action s p) = s"
| "action_source (ATTACK_action s t d) = s"
| "action_source (SKILL_action s t k) = s"

record CombatRound =
  roundNumber :: real
  actions :: "CombatAction list"
  timestamp :: real

record CombatResult =
  result_state :: CombatState
  winner :: "eref option"
  experienceGained :: "real option"
  lootDropped :: "unit list option"

text \<open>
  Calls to the collaborators outside the combat core (the animation hooks of the game and
  of the enemy spawner) are recorded in the order they are made.
\<close>

datatype ExternalCall =
  PlayPlayerAnimation string
  | PlayEnemyAnimation string string
  | SpawnerRemoveEnemy string

record CombatManager =
  heap :: Heap
  player :: eref
  enemies :: "eref list"
  currentState :: CombatState
  rounds :: "CombatRound list"
  currentRound :: real
  actionQueue :: "CombatAction list"
  lastRoundTime :: real
  skillManager :: SkillManager
  passiveManager :: PassiveManager
  gearManager :: GearManager
  progressionManager :: ProgressionManager
  rnd :: "nat \<Rightarrow> real"
  rndPos :: nat
  calls :: "ExternalCall list"

definition ROUND_DURATION :: real where
  "ROUND_DURATION = 2000"

definition MOVE_SPEED :: real where
  "MOVE_SPEED = 1 / 10"

definition ATTACK_RANGE :: real where
  "ATTACK_RANGE = 1"

definition health_of :: "CombatManager \<Rightarrow> eref \<Rightarrow> real" where
  "health_of m e = currentHealth (stats (ents (heap m) e))"

definition calculateDamage :: "CombatEntity \<Rightarrow> CombatEntity \<Rightarrow> real" where
  "calculateDamage attacker defender =
     (let baseDamage = attack (stats attacker);
          dfn = defense (stats defender)
      in max 1 (baseDamage - dfn))"

definition isWithinAttackRange :: "Vector3 \<Rightarrow> Vector3 \<Rightarrow> bool" where
  "isWithinAttackRange pos1 pos2 =
     (let dx = vx pos1 - vx pos2;
          dz = vz pos1 - vz pos2
      in dx * dx + dz * dz \<le> ATTACK_RANGE * ATTACK_RANGE)"

text \<open>The loop of \<open>findNearestEnemy\<close>; \<open>None\<close> as the least distance is \<open>Infinity\<close>.\<close>

fun findNearest_loop ::
  "eref list \<Rightarrow> Heap \<Rightarrow> Vector3 \<Rightarrow> eref option \<Rightarrow> real option \<Rightarrow> eref option" where
  "findNearest_loop [] h pos nearest minDistance = nearest"
| "findNearest_loop (e # es) h pos nearest minDistance =
     (if currentHealth (stats (ents h e)) \<le> 0 then findNearest_loop es h pos nearest minDistance
      else
        (let dx = vx (position (ents h e)) - vx pos;
             dz = vz (position (ents h e)) - vz pos;
             distSq = dx * dx + dz * dz
         in if (case minDistance of None \<Rightarrow> True | Some d \<Rightarrow> distSq < d)
            then findNearest_loop es h pos (Some e) (Some distSq)
            else findNearest_loop es h pos nearest minDistance))"

definition findNearestEnemy :: "CombatManager \<Rightarrow> Vector3 \<Rightarrow> eref option" where
  "findNearestEnemy m pos = findNearest_loop (enemies m) (heap m) pos None None"

definition determinePlayerAction :: "CombatManager \<Rightarrow> CombatAction option" where
  "determinePlayerAction m =
     (case findNearestEnemy m (position (ents (heap m) (player m))) of
        None \<Rightarrow> None
      | Some nearestEnemy \<Rightarrow>
          (case getAvailableSkills (skillManager m) (heap m) (player m) of
             skill # _ \<Rightarrow> Some (SKILL_action (player m) nearestEnemy skill)
           | [] \<Rightarrow>
               if isWithinAttackRange (position (ents (heap m) (player m)))
                    (position (ents (heap m) nearestEnemy))
               then Some (ATTACK_action (player m) nearestEnemy
                       (calculateDamage (ents (heap m) (player m)) (ents (heap m) nearestEnemy)))
               else Some (MOVE_action (player m) nearestEnemy)))"

definition determineEnemyAction :: "eref \<Rightarrow> CombatManager \<Rightarrow> CombatAction option" where
  "determineEnemyAction enemy m =
     (if isWithinAttackRange (position (ents (heap m) enemy)) (position (ents (heap m) (player m)))
      then Some (ATTACK_action enemy (player m)
              (calculateDamage (ents (heap m) enemy) (ents (heap m) (player m))))
      else Some (MOVE_action enemy (player m)))"

definition determineAction :: "eref \<Rightarrow> CombatManager \<Rightarrow> CombatAction option" where
  "determineAction e m =
     (if isPlayer (ents (heap m) e) then determinePlayerAction m else determineEnemyAction e m)"

text \<open>
  \<open>Array.prototype.sort\<close> with a comparator is a stable sort (ECMAScript 2019): the model is
  the stable insertion sort that puts \<open>x\<close> before the first \<open>y\<close> with \<open>cmp x y \<le> 0\<close>.
\<close>

fun insort_cmp :: "('a \<Rightarrow> 'a \<Rightarrow> real) \<Rightarrow> 'a \<Rightarrow> 'a list \<Rightarrow> 'a list" where
  "insort_cmp cmp x [] = [x]"
| "insort_cmp cmp x (y # ys) = (if cmp x y \<le> 0 then x # y # ys else y # insort_cmp cmp x ys)"

definition js_sort :: "('a \<Rightarrow> 'a \<Rightarrow> real) \<Rightarrow> 'a list \<Rightarrow> 'a list" where
  "js_sort cmp xs = foldr (insort_cmp cmp) xs []"

definition aliveEntities :: "CombatManager \<Rightarrow> eref list" where
  "aliveEntities m =
     js_sort (\<lambda>a b. speed (stats (ents (heap m) b)) - speed (stats (ents (heap m) a)))
       (filter (\<lambda>e. currentHealth (stats (ents (heap m) e)) > 0) (player m # enemies m))"

text \<open>The combatants alive at the start of a round, before sorting.\<close>

definition living :: "CombatManager \<Rightarrow> eref list" where
  "living m = filter (\<lambda>e. 0 < health_of m e) (player m # enemies m)"

definition processRound :: "real \<Rightarrow> CombatManager \<Rightarrow> CombatManager" where
  "processRound stamp m =
     (let m1 = m\<lparr>actionQueue := []\<rparr>;
          m2 = m1\<lparr>actionQueue := List.map_filter (\<lambda>e. determineAction e m1) (aliveEntities m1)\<rparr>
      in m2\<lparr>rounds := rounds m2 @ [\<lparr>roundNumber = currentRound m2, actions = actionQueue m2,
                                     timestamp = stamp\<rparr>],
            currentRound := currentRound m2 + 1\<rparr>)"

definition removeEnemy :: "eref \<Rightarrow> CombatManager \<Rightarrow> CombatManager" where
  "removeEnemy enemy m =
     (if enemy \<in> set (enemies m)
      then m\<lparr>enemies := remove1 enemy (enemies m),
             calls := calls m @ [SpawnerRemoveEnemy (entity_id (ents (heap m) enemy))]\<rparr>
      else m)"

definition playAnimation :: "eref \<Rightarrow> string \<Rightarrow> CombatManager \<Rightarrow> CombatManager" where
  "playAnimation e anim m =
     m\<lparr>calls := calls m @ [if isPlayer (ents (heap m) e) then PlayPlayerAnimation anim
                            else PlayEnemyAnimation (entity_id (ents (heap m) e)) anim]\<rparr>"

definition track :: "CombatEventType \<Rightarrow> real \<Rightarrow> CombatManager \<Rightarrow> CombatManager" where
  "track ty v m = m\<lparr>progressionManager := trackCombatEvent ty v (progressionManager m)\<rparr>"

definition handleAttack :: "eref \<Rightarrow> eref \<Rightarrow> CombatManager \<Rightarrow> CombatManager" where
  "handleAttack attacker target m =
     (let damage = max 1 (attack (stats (ents (heap m) attacker))
                          - defense (stats (ents (heap m) target)));
          m1 = m\<lparr>heap := set_currentHealth target
                 (max 0 (currentHealth (stats (ents (heap m) target)) - damage)) (heap m)\<rparr>;
          m2 = playAnimation attacker ''attack'' m1;
          m3 = playAnimation target ''hit'' m2;
          m4 = (if isPlayer (ents (heap m3) attacker) then track damage_dealt damage m3
                else track damage_taken damage m3)
      in if currentHealth (stats (ents (heap m4) target)) \<le> 0
            \<and> \<not> isPlayer (ents (heap m4) target)
         then removeEnemy target
                (track enemy_defeated (level (stats (ents (heap m4) target))) m4)
         else m4)"

definition handleSkillEffect :: "eref \<Rightarrow> eref \<times> SkillEffect \<times> real \<Rightarrow> CombatManager \<Rightarrow> CombatManager" where
  "handleSkillEffect src eff m =
     (case eff of (tgt, effect, v) \<Rightarrow>
        (case se_type effect of
           ATTACK \<Rightarrow> handleAttack src tgt m
         | HEAL \<Rightarrow>
             m\<lparr>heap := set_currentHealth tgt
                  (min (maxHealth (stats (ents (heap m) tgt)))
                       (currentHealth (stats (ents (heap m) tgt)) + v)) (heap m)\<rparr>
         | BUFF \<Rightarrow> m
         | DEBUFF \<Rightarrow> m))"

text \<open>
  \<open>normalize\<close> and \<open>addScaledVector\<close> are the vector operations of the three.js library:
  a vector of length 0 is left as it is by \<open>normalize\<close>.
\<close>

definition normalize :: "Vector3 \<Rightarrow> Vector3" where
  "normalize v =
     (let len = sqrt (vx v * vx v + vy v * vy v + vz v * vz v);
          d = (if len = 0 then 1 else len)
      in \<lparr>vx = vx v / d, vy = vy v / d, vz = vz v / d\<rparr>)"

definition moveEntity :: "eref \<Rightarrow> eref \<Rightarrow> CombatManager \<Rightarrow> CombatManager" where
  "moveEntity e targetPosition m =
     (let tp = position (ents (heap m) targetPosition);
          ep = position (ents (heap m) e);
          direction = normalize \<lparr>vx = vx tp - vx ep, vy = vy tp - vy ep, vz = vz tp - vz ep\<rparr>
      in m\<lparr>heap := set_position e
             \<lparr>vx = vx ep + vx direction * MOVE_SPEED, vy = vy ep + vy direction * MOVE_SPEED,
              vz = vz ep + vz direction * MOVE_SPEED\<rparr> (heap m)\<rparr>)"

text \<open>
  The two nested \<open>forEach\<close> loops of the attack case: every effect of every triggered
  passive multiplies \<open>finalDamage\<close> by \<open>1 + effect.value\<close>.
\<close>

definition applyAttackModifiers :: "PassiveResult list \<Rightarrow> real \<Rightarrow> real" where
  "applyAttackModifiers attackPassives dmg =
     fold (\<lambda>result. fold (\<lambda>effect finalDamage. finalDamage * (1 + snd effect)) (pr_effects result))
       attackPassives dmg"

text \<open>
  One iteration of the loop of \<open>processActions\<close>, without the final \<open>shift\<close>. In the attack
  case the source computes \<open>finalDamage\<close> and then calls \<open>handleAttack(action.source,
  action.target)\<close>, which takes no damage argument.
\<close>

fun resolveAction :: "CombatAction \<Rightarrow> CombatManager \<Rightarrow> CombatManager" where
  "resolveAction (ATTACK_action src tgt dmg) m =
     (let (attackPassives, i) =
            checkTrigger (passiveManager m) ON_ATTACK (heap m) src (Some tgt) (Some dmg)
              (rnd m) (rndPos m);
          finalDamage = applyAttackModifiers attackPassives dmg
      in handleAttack src tgt (m\<lparr>rndPos := i\<rparr>))"
| "resolveAction (SKILL_action src tgt sk) m =
     (let (res, h) = executeSkill sk src [tgt] (heap m);
          m1 = m\<lparr>heap := h\<rparr>
      in if success res then fold (handleSkillEffect src) (result_effects res) m1 else m1)"
| "resolveAction (MOVE_action src targetPosition) m = moveEntity src targetPosition m"

fun processQueue :: "CombatAction list \<Rightarrow> CombatManager \<Rightarrow> CombatManager" where
  "processQueue [] m = m"
| "processQueue (a # q) m = processQueue q ((resolveAction a m)\<lparr>actionQueue := q\<rparr>)"

definition processActions :: "CombatManager \<Rightarrow> CombatManager" where
  "processActions m = processQueue (actionQueue m) m"

definition calculateExperienceGain :: "CombatManager \<Rightarrow> real" where
  "calculateExperienceGain m =
     fold (\<lambda>enemy total. total + level (stats (ents (heap m) enemy)) * 10) (enemies m) 0"

definition generateLoot :: "CombatManager \<Rightarrow> unit list" where
  "generateLoot m = []"

definition endCombat :: "CombatResult \<Rightarrow> CombatManager \<Rightarrow> CombatManager" where
  "endCombat res m = m\<lparr>currentState := result_state res\<rparr>"

text \<open>The result that \<open>checkCombatEnd\<close> hands to \<open>endCombat\<close>, if it ends the combat.\<close>

definition combatEndResult :: "CombatManager \<Rightarrow> CombatResult option" where
  "combatEndResult m =
     (if health_of m (player m) \<le> 0 then
        Some \<lparr>result_state = DEFEAT, winner = List.find (\<lambda>e. health_of m e > 0) (enemies m),
              experienceGained = None, lootDropped = None\<rparr>
      else if list_all (\<lambda>enemy. health_of m enemy \<le> 0) (enemies m) then
        Some \<lparr>result_state = VICTORY, winner = Some (player m),
              experienceGained = Some (calculateExperienceGain m),
              lootDropped = Some (generateLoot m)\<rparr>
      else None)"

definition checkCombatEnd :: "CombatManager \<Rightarrow> CombatManager" where
  "checkCombatEnd m = (case combatEndResult m of None \<Rightarrow> m | Some res \<Rightarrow> endCombat res m)"

text \<open>
  \<open>update\<close> up to and including \<open>processActions\<close>. \<open>currentTime\<close> is the value \<open>Date.now()\<close>
  returns in \<open>update\<close>, \<open>stamp\<close> the one it returns in \<open>processRound\<close>.
\<close>

definition updateActions :: "real \<Rightarrow> real \<Rightarrow> CombatManager \<Rightarrow> CombatManager" where
  "updateActions currentTime stamp m =
     (let deltaTime = currentTime - lastRoundTime m;
          m1 = (if deltaTime \<ge> ROUND_DURATION then
                  (let a = (processRound stamp m)\<lparr>lastRoundTime := currentTime\<rparr>
                   in a\<lparr>heap := updateCooldowns (skillManager a) (heap a)\<rparr>)
                else m)
      in processActions m1)"

definition update :: "real \<Rightarrow> real \<Rightarrow> CombatManager \<Rightarrow> CombatManager" where
  "update currentTime stamp m =
     (if currentState m \<noteq> IN_PROGRESS then m
      else
        (let m2 = updateActions currentTime stamp m
         in if health_of m2 (player m2) \<le> 0
               \<or> list_all (\<lambda>enemy. health_of m2 enemy \<le> 0) (enemies m2)
            then checkCombatEnd m2 else m2))"

section \<open>The invariant of CombatStats\<close>

text \<open>
  Health and energy stay between 0 and their maximum. \<open>heapInvariant\<close> says so of every
  entity; \<open>healValues\<close> are the values of the heal effects in a skill result, and
  \<open>permanentStatBoosts\<close> the \<open>STAT_BOOST\<close> effects that \<open>applyPermanentPassives\<close> applies.
\<close>

definition statsInvariant :: "CombatStats \<Rightarrow> bool" where
  "statsInvariant s \<longleftrightarrow>
     0 \<le> currentHealth s \<and> currentHealth s \<le> maxHealth s
     \<and> 0 \<le> currentEnergy s \<and> currentEnergy s \<le> maxEnergy s"

definition heapInvariant :: "Heap \<Rightarrow> bool" where
  "heapInvariant h \<longleftrightarrow> (\<forall>x. statsInvariant (stats (ents h x)))"

definition healValues :: "(eref \<times> SkillEffect \<times> real) list \<Rightarrow> real list" where
  "healValues effs = map (\<lambda>eff. snd (snd eff)) (filter (\<lambda>eff. se_type (fst (snd eff)) = HEAL) effs)"

definition permanentStatBoosts :: "PassiveManager \<Rightarrow> PassiveEffect list" where
  "permanentStatBoosts pm =
     filter (\<lambda>e. pe_type e = STAT_BOOST)
       (concat (map passive_effects (filter (\<lambda>p. trigger p = PERMANENT) (getActivePassives pm))))"

section \<open>Concrete objects used in examples\<close>

definition mkStats :: "real \<Rightarrow> real \<Rightarrow> real \<Rightarrow> real \<Rightarrow> real \<Rightarrow> real \<Rightarrow> real \<Rightarrow> CombatStats" where
  "mkStats lv hp cur atk dfn spd en =
     \<lparr>level = lv, maxHealth = hp, currentHealth = cur, attack = atk, defense = dfn,
      speed = spd, maxEnergy = en, currentEnergy = en\<rparr>"

definition origin :: Vector3 where
  "origin = \<lparr>vx = 0, vy = 0, vz = 0\<rparr>"

text \<open>The player entity as \<open>Game.createPlayerEntity\<close> builds it, before any upgrade.\<close>

definition player0 :: CombatEntity where
  "player0 = \<lparr>entity_id = ''p'', entity_name = ''Player'',
     stats = mkStats 1 100 100 15 10 10 100, position = origin, isPlayer = True\<rparr>"

text \<open>A level-1 enemy as \<open>EnemySpawner.createEnemyStats\<close> builds it, placed at the origin.\<close>

definition enemy0 :: CombatEntity where
  "enemy0 = \<lparr>entity_id = ''e'', entity_name = ''Enemy 1'',
     stats = mkStats 1 50 50 10 5 5 50, position = origin, isPlayer = False\<rparr>"

text \<open>The default skill \<open>Power Strike\<close> of \<open>SkillManager.initializeDefaultSkills\<close>.\<close>

definition powerStrike :: Skill where
  "powerStrike = \<lparr>skill_id = ''power-strike'', skill_name = ''Power Strike'',
     skill_type = ATTACK, targetType = SINGLE_ENEMY,
     effects = [\<lparr>se_type = ATTACK, se_value = 200, se_duration = None, se_radius = None\<rparr>],
     cooldown = 3, currentCooldown = 0, energyCost = 30\<rparr>"

definition heap0 :: Heap where
  "heap0 = \<lparr>ents = (\<lambda>_. enemy0)(0 := player0), skillObjs = (\<lambda>_. powerStrike)\<rparr>"

definition heapCd :: Heap where
  "heapCd = \<lparr>ents = (\<lambda>_. enemy0)(0 := player0),
              skillObjs = (\<lambda>_. powerStrike\<lparr>currentCooldown := 2\<rparr>)\<rparr>"

text \<open>The default upgrades of \<open>ProgressionManager.initializeMetaUpgrades\<close>.\<close>

definition defaultUpgrades :: "(string \<times> MetaUpgrade) list" where
  "defaultUpgrades =
     [(''damage-boost'', \<lparr>upgrade_id = ''damage-boost'', upgrade_name = ''Power Surge'',
         upgrade_type = DAMAGE_BOOST, upgrade_value = fl (5 / 100), cost = 100, maxLevel = 10,
         currentLevel = 0\<rparr>),
      (''health-boost'', \<lparr>upgrade_id = ''health-boost'', upgrade_name = ''Vitality'',
         upgrade_type = HEALTH_BOOST, upgrade_value = fl (10 / 100), cost = 100, maxLevel = 10,
         currentLevel = 0\<rparr>),
      (''defense-boost'', \<lparr>upgrade_id = ''defense-boost'', upgrade_name = ''Iron Skin'',
         upgrade_type = DEFENSE_BOOST, upgrade_value = fl (5 / 100), cost = 100, maxLevel = 10,
         currentLevel = 0\<rparr>),
      (''resource-gain'', \<lparr>upgrade_id = ''resource-gain'', upgrade_name = ''Fortune Finder'',
         upgrade_type = RESOURCE_GAIN, upgrade_value = fl (10 / 100), cost = 150, maxLevel = 5,
         currentLevel = 0\<rparr>)]"

definition progress0 :: "real \<Rightarrow> PlayerProgress" where
  "progress0 res =
     \<lparr>totalRuns = 0, bestRun = None, resources = res, metaUpgrades = defaultUpgrades,
      unlockedContent = [],
      statistics = \<lparr>totalEnemiesDefeated = 0, totalDamageDealt = 0, totalDamageTaken = 0,
                     totalResourcesGained = 0, totalPlayTime = 0\<rparr>\<rparr>"

definition run0 :: RunStats where
  "run0 = \<lparr>runId = ''run'', startTime = 0, endTime = 0, enemiesDefeated = 0, damageDealt = 0,
            damageTaken = 0, resourcesGained = 0, run_result = RUN_DEFEAT, difficulty = 1,
            wave = 1\<rparr>"

definition pm0 :: "real \<Rightarrow> ProgressionManager" where
  "pm0 res = \<lparr>currentRun = Some run0, progress = progress0 res, storage = None\<rparr>"

text \<open>The default passive \<open>Life Steal\<close> of \<open>PassiveManager.initializeDefaultPassives\<close>.\<close>

definition lifeSteal :: Passive where
  "lifeSteal = \<lparr>passive_id = ''life-steal'', passive_name = ''Life Steal'',
     trigger = ON_ATTACK,
     passive_effects = [\<lparr>pe_type = LIFE_STEAL, pe_value = fl (1 / 10), chance = None,
                          pe_duration = None\<rparr>],
     passive_level = 1, passive_maxLevel = 5\<rparr>"

definition emptyGear :: GearManager where
  "emptyGear = \<lparr>loadout = (\<lambda>_. None), gearSets = []\<rparr>"

text \<open>
  A combat in progress: the player (reference 0) and one level-1 enemy (reference 1) stand
  on the same spot, a run is active, and no skill and no passive is equipped.
\<close>

definition combat0 :: CombatManager where
  "combat0 =
     \<lparr>heap = heap0, player = 0, enemies = [1], currentState = IN_PROGRESS, rounds = [],
      currentRound = 1, actionQueue = [], lastRoundTime = 0,
      skillManager = \<lparr>skill_slots = [None, None, None, None], skill_maxSlots = 4\<rparr>,
      passiveManager = \<lparr>passive_slots = [None, None, None], passive_maxSlots = 3\<rparr>,
      gearManager = emptyGear, progressionManager = pm0 0,
      rnd = (\<lambda>_. 0), rndPos = 0, calls = []\<rparr>"

definition withHealth :: "CombatEntity \<Rightarrow> real \<Rightarrow> CombatEntity" where
  "withHealth e v = e\<lparr>stats := (stats e)\<lparr>currentHealth := v\<rparr>\<rparr>"

text \<open>The same combat with the enemy at 0 health, and with the enemy at 10 health.\<close>

definition combatDead :: CombatManager where
  "combatDead = combat0\<lparr>heap := heap0\<lparr>ents := (\<lambda>_. withHealth enemy0 0)(0 := player0)\<rparr>\<rparr>"

definition combatLow :: CombatManager where
  "combatLow = combat0\<lparr>heap := heap0\<lparr>ents := (\<lambda>_. withHealth enemy0 10)(0 := player0)\<rparr>\<rparr>"

text \<open>The same combat with the passive \<open>Life Steal\<close> equipped in the first slot.\<close>

definition combatLS :: CombatManager where
  "combatLS = combat0\<lparr>passiveManager :=
     \<lparr>passive_slots = [Some lifeSteal, None, None], passive_maxSlots = 3\<rparr>\<rparr>"

text \<open>
  The shape every state of the duel started by \<open>combat0\<close> has at the start of a round: the
  player has \<open>ph\<close> health, the enemy \<open>eh\<close>, and no enemy has been counted as defeated.
\<close>

definition duel :: "CombatManager \<Rightarrow> real \<Rightarrow> real \<Rightarrow> real \<Rightarrow> bool" where
  "duel m t ph eh \<longleftrightarrow>
     player m = 0 \<and> enemies m = [1] \<and> currentState m = IN_PROGRESS \<and> lastRoundTime m = t
     \<and> skill_slots (skillManager m) = [None, None, None, None]
     \<and> passive_slots (passiveManager m) = [None, None, None]
     \<and> ents (heap m) 0 = withHealth player0 ph \<and> ents (heap m) 1 = withHealth enemy0 eh
     \<and> map_option enemiesDefeated (currentRun (progressionManager m)) = Some 0"

text \<open>
  A round with three combatants on the same spot: the player (reference 0, speed 10), an
  enemy of speed 5 (reference 1) and an enemy of speed 15 (reference 2).
\<close>

definition arena :: CombatManager where
  "arena = combat0\<lparr>enemies := [1, 2],
     heap := heap0\<lparr>ents := (\<lambda>_. enemy0)
       (0 := player0, 2 := enemy0\<lparr>stats := (stats enemy0)\<lparr>speed := 15\<rparr>\<rparr>)\<rparr>\<rparr>"

text \<open>
  The warrior set and the three default items of \<open>GearManager\<close>, a fourth warrior piece for
  the chest, and the loadouts with three and with four warrior pieces.
\<close>

definition tier2 :: GearSetBonus where
  "tier2 = \<lparr>pieces = 2, bonus_stats =
     \<lparr>g_attack = 5, g_defense = 5, g_health = 20, g_speed = 0, g_energy = 10\<rparr>\<rparr>"

definition tier4 :: GearSetBonus where
  "tier4 = \<lparr>pieces = 4, bonus_stats =
     \<lparr>g_attack = 15, g_defense = 15, g_health = 50, g_speed = 2, g_energy = 20\<rparr>\<rparr>"

definition warriorSet :: GearSet where
  "warriorSet = \<lparr>set_id = ''warrior'', set_name = ''Warrior Set'', bonuses = [tier2, tier4]\<rparr>"

definition basicSword :: GearItem where
  "basicSword = \<lparr>gear_id = ''sword'', gear_name = ''Basic Sword'', slot = WEAPON,
     rarity = COMMON, gear_level = 1,
     baseStats = \<lparr>g_attack = 10, g_defense = 0, g_health = 0, g_speed = 0, g_energy = 0\<rparr>,
     setId = Some ''warrior''\<rparr>"

definition basicShield :: GearItem where
  "basicShield = \<lparr>gear_id = ''shield'', gear_name = ''Basic Shield'', slot = OFFHAND,
     rarity = COMMON, gear_level = 1,
     baseStats = \<lparr>g_attack = 0, g_defense = 10, g_health = 20, g_speed = - 1, g_energy = 0\<rparr>,
     setId = Some ''warrior''\<rparr>"

definition leatherHelmet :: GearItem where
  "leatherHelmet = \<lparr>gear_id = ''helmet'', gear_name = ''Leather Helmet'', slot = HEAD,
     rarity = COMMON, gear_level = 1,
     baseStats = \<lparr>g_attack = 0, g_defense = 5, g_health = 10, g_speed = 0, g_energy = 5\<rparr>,
     setId = Some ''warrior''\<rparr>"

definition warriorChest :: GearItem where
  "warriorChest = \<lparr>gear_id = ''chest'', gear_name = ''Warrior Chestplate'', slot = CHEST,
     rarity = COMMON, gear_level = 1,
     baseStats = \<lparr>g_attack = 0, g_defense = 0, g_health = 0, g_speed = 0, g_energy = 0\<rparr>,
     setId = Some ''warrior''\<rparr>"

definition gear3 :: GearManager where
  "gear3 = \<lparr>loadout = (\<lambda>_. None)(HEAD := Some leatherHelmet, WEAPON := Some basicSword,
                                   OFFHAND := Some basicShield),
             gearSets = [(''warrior'', warriorSet)]\<rparr>"

definition gear4 :: GearManager where
  "gear4 = \<lparr>loadout = (\<lambda>_. None)(HEAD := Some leatherHelmet, CHEST := Some warriorChest,
                                   WEAPON := Some basicSword, OFFHAND := Some basicShield),
             gearSets = [(''warrior'', warriorSet)]\<rparr>"

text \<open>
  States for the invariant: the default skill \<open>Heal\<close>; a level-116 enemy as
  \<open>EnemySpawner.createEnemyStats\<close> builds it (defense 120), with 1 health left; a skill with
  a negative energy cost; a helmet that lowers health; and the default permanent passive
  \<open>Toughness\<close> beside one with a negative boost.
\<close>

definition healSkill :: Skill where
  "healSkill = \<lparr>skill_id = ''heal'', skill_name = ''Heal'', skill_type = HEAL,
     targetType = SELF,
     effects = [\<lparr>se_type = HEAL, se_value = 50, se_duration = None, se_radius = None\<rparr>],
     cooldown = 5, currentCooldown = 0, energyCost = 40\<rparr>"

definition enemy116 :: CombatEntity where
  "enemy116 = \<lparr>entity_id = ''e116'', entity_name = ''Enemy 116'',
     stats = mkStats 116 1200 1 240 120 120 1200, position = origin, isPlayer = False\<rparr>"

definition combatHeal :: CombatManager where
  "combatHeal = combat0\<lparr>heap :=
     \<lparr>ents = (\<lambda>_. enemy116)(0 := player0), skillObjs = (\<lambda>_. healSkill)\<rparr>\<rparr>"

definition heapRefund :: Heap where
  "heapRefund = \<lparr>ents = (\<lambda>_. enemy0)(0 := player0),
                 skillObjs = (\<lambda>_. healSkill\<lparr>energyCost := - 10\<rparr>)\<rparr>"

definition cursedGear :: GearManager where
  "cursedGear = \<lparr>loadout = (\<lambda>_. None)(HEAD := Some (leatherHelmet\<lparr>baseStats :=
       \<lparr>g_attack = 0, g_defense = 5, g_health = - 200, g_speed = 0, g_energy = 5\<rparr>\<rparr>)),
     gearSets = []\<rparr>"

definition toughness :: Passive where
  "toughness = \<lparr>passive_id = ''toughness'', passive_name = ''Toughness'', trigger = PERMANENT,
     passive_effects = [\<lparr>pe_type = STAT_BOOST, pe_value = 10, chance = None,
                          pe_duration = None\<rparr>],
     passive_level = 1, passive_maxLevel = 5\<rparr>"

definition frailty :: Passive where
  "frailty = toughness\<lparr>passive_effects :=
     [\<lparr>pe_type = STAT_BOOST, pe_value = - 20, chance = None, pe_duration = None\<rparr>]\<rparr>"

definition passives1 :: "Passive \<Rightarrow> PassiveManager" where
  "passives1 p = \<lparr>passive_slots = [Some p, None, None], passive_maxSlots = 3\<rparr>"

text \<open>
  A level-76 enemy as \<open>EnemySpawner.createEnemyStats\<close> builds it (defense 80), and a heap
  with the player, this enemy and the skill \<open>Power Strike\<close>.
\<close>

definition enemy76 :: CombatEntity where
  "enemy76 = \<lparr>entity_id = ''e76'', entity_name = ''Enemy 76'',
     stats = mkStats 76 800 800 160 80 80 800, position = origin, isPlayer = False\<rparr>"

definition heap76 :: Heap where
  "heap76 = \<lparr>ents = (\<lambda>_. enemy76)(0 := player0), skillObjs = (\<lambda>_. powerStrike)\<rparr>"

section \<open>Evaluating double-precision arithmetic\<close>

lemma fl_zero [simp]: "fl 0 = 0"
  by (simp add: fl_def)

text \<open>
  Scaled by the power of two that brings it into \<open>[2 ^ 52, 2 ^ 53)\<close>, a number is rounded
  to the nearest integer.
\<close>

lemma fl_scaled:
  assumes lo: "2 ^ 52 \<le> \<bar>x\<bar> * 2 ^ n" and hi: "\<bar>x\<bar> * 2 ^ n < 2 ^ 53"
  shows "fl x = of_int (round_even (x * 2 ^ n)) / 2 ^ n"
proof -
  have x: "x \<noteq> 0" using lo by auto
  then have pos: "0 < \<bar>x\<bar>" by simp
  have l: "log 2 (\<bar>x\<bar> * 2 ^ n) = log 2 \<bar>x\<bar> + real n"
    using pos by (simp add: log_mult log_nat_power)
  have l52: "log 2 ((2::real) ^ 52) = 52" and l53: "log 2 ((2::real) ^ 53) = 53"
    using log_nat_power [of 2 2 52] log_nat_power [of 2 2 53] by simp_all
  have "log 2 (2 ^ 52) \<le> log 2 (\<bar>x\<bar> * 2 ^ n)"
    using lo by (subst log_le_cancel_iff) (auto intro: mult_pos_pos pos)
  then have a: "52 - real n \<le> log 2 \<bar>x\<bar>"
    unfolding l l52 by simp
  have "log 2 (\<bar>x\<bar> * 2 ^ n) < log 2 (2 ^ 53)"
    using hi pos by (subst log_less_cancel_iff) (auto intro: mult_pos_pos)
  then have b: "log 2 \<bar>x\<bar> < 53 - real n"
    unfolding l l53 by simp
  have "\<lfloor>log 2 \<bar>x\<bar>\<rfloor> = 52 - int n"
    using a b by (intro floor_unique) auto
  then have e: "\<lfloor>log 2 \<bar>x\<bar>\<rfloor> - 52 = - int n" by simp
  have p: "2 powr of_int (- int n) = 1 / (2::real) ^ n"
    by (simp add: powr_minus powr_realpow divide_inverse)
  show ?thesis
    using x by (simp add: fl_def Let_def e p del: of_int_minus)
qed

text \<open>
  The three formulas at the inputs used below. The exact product for a base value of 200,
  attack 15 and defense 80 is 6; the doubles give \<open>30 * 0.19999999999999996\<close>, which
  rounds to \<open>5.999999999999998\<close>.
\<close>

lemma skillEffect_200_15_80:
  assumes "attack (stats src) = 15" and "defense (stats tgt) = 80"
  shows "calculateSkillEffect 200 src tgt = 5"
proof -
  have s1: "fdiv 15 100 = 5404319552844595 / 36028797018963968"
    by (simp add: fdiv_def fl_scaled [where n = 55] round_even_def)
  have s2: "fdiv 80 100 = 3602879701896397 / 4503599627370496"
    by (simp add: fdiv_def fl_scaled [where n = 53] round_even_def)
  have s3: "fsub 1 (3602879701896397 / 4503599627370496) = 900719925474099 / 4503599627370496"
    by (simp add: fsub_def fl_scaled [where n = 55] round_even_def)
  have s4: "fmul 200 (5404319552844595 / 36028797018963968) = 30"
    by (simp add: fmul_def fl_scaled [where n = 48] round_even_def)
  have s5: "fmul 30 (900719925474099 / 4503599627370496) = 3377699720527871 / 562949953421312"
    by (simp add: fmul_def fl_scaled [where n = 50] round_even_def)
  show ?thesis
    by (simp add: calculateSkillEffect_def Let_def assms s1 s2 s3 s4 s5)
qed

lemma skillEffect_200_15_5:
  assumes "attack (stats src) = 15" and "defense (stats tgt) = 5"
  shows "calculateSkillEffect 200 src tgt = 28"
proof -
  have s1: "fdiv 15 100 = 5404319552844595 / 36028797018963968"
    by (simp add: fdiv_def fl_scaled [where n = 55] round_even_def)
  have s2: "fdiv 5 100 = 3602879701896397 / 72057594037927936"
    by (simp add: fdiv_def fl_scaled [where n = 57] round_even_def)
  have s3: "fsub 1 (3602879701896397 / 72057594037927936) = 4278419646001971 / 4503599627370496"
    by (simp add: fsub_def fl_scaled [where n = 53] round_even_def)
  have s4: "fmul 200 (5404319552844595 / 36028797018963968) = 30"
    by (simp add: fmul_def fl_scaled [where n = 48] round_even_def)
  have s5: "fmul 30 (4278419646001971 / 4503599627370496) = 57 / 2"
    by (simp add: fmul_def fl_scaled [where n = 48] round_even_def)
  show ?thesis
    by (simp add: calculateSkillEffect_def Let_def assms s1 s2 s3 s4 s5)
qed

lemma skillEffect_50_15_120:
  assumes "attack (stats src) = 15" and "defense (stats tgt) = 120"
  shows "calculateSkillEffect 50 src tgt = - 2"
proof -
  have s1: "fdiv 15 100 = 5404319552844595 / 36028797018963968"
    by (simp add: fdiv_def fl_scaled [where n = 55] round_even_def)
  have s2: "fdiv 120 100 = 5404319552844595 / 4503599627370496"
    by (simp add: fdiv_def fl_scaled [where n = 52] round_even_def)
  have s3: "fsub 1 (5404319552844595 / 4503599627370496) = - (900719925474099 / 4503599627370496)"
    by (simp add: fsub_def fl_scaled [where n = 55] round_even_def)
  have s4: "fmul 50 (5404319552844595 / 36028797018963968) = 15 / 2"
    by (simp add: fmul_def fl_scaled [where n = 50] round_even_def)
  have s5: "fmul (15 / 2) (- (900719925474099 / 4503599627370496)) = - (3377699720527871 / 2251799813685248)"
    by (simp add: fmul_def fl_scaled [where n = 52] round_even_def)
  show ?thesis
    by (simp add: calculateSkillEffect_def Let_def assms s1 s2 s3 s4 s5)
qed

lemma passiveEffect_level1_trigger10:
  assumes "level (stats src) = 1"
  shows "calculatePassiveEffect (fl (1 / 10)) src (Some 10) = 1"
proof -
  have s1: "fl (1 / 10) = 3602879701896397 / 36028797018963968"
    by (simp add: fl_scaled [where n = 56] round_even_def)
  have s2: "fsub 1 1 = 0"
    by (simp add: fsub_def)
  have s3: "fmul 0 (3602879701896397 / 36028797018963968) = 0"
    by (simp add: fmul_def)
  have s4: "fadd 1 0 = 1"
    by (simp add: fadd_def fl_scaled [where n = 52] round_even_def)
  have s5: "fmul (3602879701896397 / 36028797018963968) 1 = 3602879701896397 / 36028797018963968"
    by (simp add: fmul_def fl_scaled [where n = 56] round_even_def)
  have s6: "fmul (3602879701896397 / 36028797018963968) 10 = 1"
    by (simp add: fmul_def fl_scaled [where n = 52] round_even_def)
  show ?thesis
    by (simp add: calculatePassiveEffect_def Let_def assms s1 s2 s3 s4 s5 s6)
qed

lemma passiveEffect_level5_trigger50:
  assumes "level (stats src) = 5"
  shows "calculatePassiveEffect (fl (1 / 10)) src (Some 50) = 6"
proof -
  have s1: "fl (1 / 10) = 3602879701896397 / 36028797018963968"
    by (simp add: fl_scaled [where n = 56] round_even_def)
  have s2: "fsub 5 1 = 4"
    by (simp add: fsub_def fl_scaled [where n = 50] round_even_def)
  have s3: "fmul 4 (3602879701896397 / 36028797018963968) = 3602879701896397 / 9007199254740992"
    by (simp add: fmul_def fl_scaled [where n = 54] round_even_def)
  have s4: "fadd 1 (3602879701896397 / 9007199254740992) = 3152519739159347 / 2251799813685248"
    by (simp add: fadd_def fl_scaled [where n = 52] round_even_def)
  have s5: "fmul (3602879701896397 / 36028797018963968) (3152519739159347 / 2251799813685248) = 5044031582654955 / 36028797018963968"
    by (simp add: fmul_def fl_scaled [where n = 55] round_even_def)
  have s6: "fmul (5044031582654955 / 36028797018963968) 50 = 7881299347898367 / 1125899906842624"
    by (simp add: fmul_def fl_scaled [where n = 50] round_even_def)
  show ?thesis
    by (simp add: calculatePassiveEffect_def Let_def assms s1 s2 s3 s4 s5 s6)
qed

lemma resourceGain_level9_upgrade4:
  assumes "getMetaUpgradeEffect p RESOURCE_GAIN = fmul (fl (1 / 10)) 4"
  shows "calculateResourceGain p 9 = 62"
proof -
  have s1: "fl (1 / 10) = 3602879701896397 / 36028797018963968"
    by (simp add: fl_scaled [where n = 56] round_even_def)
  have s2: "fmul 9 5 = 45"
    by (simp add: fmul_def fl_scaled [where n = 47] round_even_def)
  have s3: "fmul (3602879701896397 / 36028797018963968) 4 = 3602879701896397 / 9007199254740992"
    by (simp add: fmul_def fl_scaled [where n = 54] round_even_def)
  have s4: "fadd 1 (3602879701896397 / 9007199254740992) = 3152519739159347 / 2251799813685248"
    by (simp add: fadd_def fl_scaled [where n = 52] round_even_def)
  have s5: "fmul 45 (3152519739159347 / 2251799813685248) = 8866461766385663 / 140737488355328"
    by (simp add: fmul_def fl_scaled [where n = 47] round_even_def)
  show ?thesis
    by (simp add: calculateResourceGain_def Let_def assms s1 s2 s3 s4 s5)
qed

section \<open>Properties of SkillManager\<close>

lemma executeSkill_blocked:
  "currentCooldown (skillObjs h sk) > 0
     \<or> currentEnergy (stats (ents h src)) < energyCost (skillObjs h sk)
   \<Longrightarrow> executeSkill sk src tgts h =
       (\<lparr>success = False, targets = [], result_effects = [],
         message = (if currentCooldown (skillObjs h sk) > 0
                    then ''Skill is on cooldown'' else ''Not enough energy'')\<rparr>, h)"
  by (auto simp: executeSkill_def)

text \<open>
  Claim C4. If the skill's \<open>currentCooldown\<close> is positive or the source's \<open>currentEnergy\<close>
  is below the skill's \<open>energyCost\<close>, \<open>executeSkill\<close> returns an unsuccessful result with
  no effects and the heap is returned as it was: the source's energy, the skill's cooldown
  and the stats of every target are unchanged.
\<close>

theorem executeSkill_fails_closed:
  assumes "currentCooldown (skillObjs h sk) > 0
             \<or> currentEnergy (stats (ents h src)) < energyCost (skillObjs h sk)"
  shows "success (fst (executeSkill sk src tgts h)) = False
         \<and> result_effects (fst (executeSkill sk src tgts h)) = []
         \<and> snd (executeSkill sk src tgts h) = h
         \<and> currentEnergy (stats (ents (snd (executeSkill sk src tgts h)) src))
             = currentEnergy (stats (ents h src))
         \<and> currentCooldown (skillObjs (snd (executeSkill sk src tgts h)) sk)
             = currentCooldown (skillObjs h sk)
         \<and> list_all (\<lambda>t. stats (ents (snd (executeSkill sk src tgts h)) t) = stats (ents h t)) tgts"
  using executeSkill_blocked [OF assms, of tgts]
  by (simp add: list_all_iff)

theorem executeSkill_fails_closed_witness:
  "currentCooldown (skillObjs heapCd 0) = 2
   \<and> success (fst (executeSkill 0 0 [1] heapCd)) = False
   \<and> snd (executeSkill 0 0 [1] heapCd) = heapCd
   \<and> currentEnergy (stats (ents (snd (executeSkill 0 0 [1] heapCd)) 0)) = 100"
  using executeSkill_fails_closed [of heapCd 0 0 "[1]"]
  by (simp add: heapCd_def powerStrike_def player0_def mkStats_def)

lemma executeSkill_ready:
  assumes "currentCooldown (skillObjs h sk) \<le> 0"
    and "energyCost (skillObjs h sk) \<le> currentEnergy (stats (ents h src))"
  shows "executeSkill sk src tgts h =
     (\<lparr>success = True, targets = tgts,
       result_effects = concat (map (\<lambda>t. map (\<lambda>e.
          (t, e, calculateSkillEffect (se_value e) (ents h src) (ents h t)))
          (effects (skillObjs h sk))) tgts),
       message = skill_name (skillObjs h sk) @ '' executed successfully''\<rparr>,
      set_currentEnergy src
        (currentEnergy (stats (ents h src)) - energyCost (skillObjs h sk))
        (set_currentCooldown sk (cooldown (skillObjs h sk)) h))"
  using assms
  by (simp add: executeSkill_def Let_def set_currentEnergy_def set_currentCooldown_def)

lemma length_concat_const:
  "length (concat (map (\<lambda>t. map (f t) es) ts)) = length ts * length es"
  by (induction ts) simp_all

text \<open>
  Claim C5, amended. For a skill off cooldown whose energy cost the source can afford,
  \<open>executeSkill\<close> returns a success result whose effects are one triple (target, effect,
  value) per pair of a target and a skill effect, in target order and then effect order.
  The value is \<open>Math.floor (baseValue * (source.attack / 100) * (1 - target.defense / 100))\<close>
  as the program computes it, in double precision with a rounding after each of the five
  operations. The source's \<open>currentEnergy\<close> is lowered by \<open>energyCost\<close> and the skill's
  \<open>currentCooldown\<close> becomes its \<open>cooldown\<close>.
\<close>

theorem executeSkill_succeeds:
  assumes "currentCooldown (skillObjs h sk) \<le> 0"
    and "energyCost (skillObjs h sk) \<le> currentEnergy (stats (ents h src))"
  shows "success (fst (executeSkill sk src tgts h)) = True
         \<and> targets (fst (executeSkill sk src tgts h)) = tgts
         \<and> result_effects (fst (executeSkill sk src tgts h))
             = [(t, e, of_int \<lfloor>fmul (fmul (se_value e) (fdiv (attack (stats (ents h src))) 100))
                                   (fsub 1 (fdiv (defense (stats (ents h t))) 100))\<rfloor>).
                  t \<leftarrow> tgts, e \<leftarrow> effects (skillObjs h sk)]
         \<and> length (result_effects (fst (executeSkill sk src tgts h)))
             = length tgts * length (effects (skillObjs h sk))
         \<and> currentEnergy (stats (ents (snd (executeSkill sk src tgts h)) src))
             = currentEnergy (stats (ents h src)) - energyCost (skillObjs h sk)
         \<and> currentCooldown (skillObjs (snd (executeSkill sk src tgts h)) sk)
             = cooldown (skillObjs h sk)"
proof -
  let ?r = "executeSkill sk src tgts h"
  note eq = executeSkill_ready [OF assms, of tgts]
  have 1: "success (fst ?r) = True" and 2: "targets (fst ?r) = tgts"
    by (simp_all add: eq)
  have 3: "result_effects (fst ?r)
             = [(t, e, of_int \<lfloor>fmul (fmul (se_value e) (fdiv (attack (stats (ents h src))) 100))
                                   (fsub 1 (fdiv (defense (stats (ents h t))) 100))\<rfloor>).
                  t \<leftarrow> tgts, e \<leftarrow> effects (skillObjs h sk)]"
    by (simp add: eq calculateSkillEffect_def)
  have 4: "length (result_effects (fst ?r)) = length tgts * length (effects (skillObjs h sk))"
    by (simp add: eq length_concat_const)
  have 5: "currentEnergy (stats (ents (snd ?r) src))
             = currentEnergy (stats (ents h src)) - energyCost (skillObjs h sk)"
    by (simp add: eq set_currentEnergy_def set_currentCooldown_def)
  have 6: "currentCooldown (skillObjs (snd ?r) sk) = cooldown (skillObjs h sk)"
    by (simp add: eq set_currentEnergy_def set_currentCooldown_def)
  from 1 2 3 4 5 6 show ?thesis by blast
qed

lemma fl_200: "fl 200 = 200"
  by (simp add: fl_scaled [where n = 45] round_even_def)

theorem executeSkill_succeeds_witness:
  "currentCooldown (skillObjs heap0 7) \<le> 0
   \<and> energyCost (skillObjs heap0 7) \<le> currentEnergy (stats (ents heap0 0))
   \<and> success (fst (executeSkill 7 0 [1] heap0)) = True
   \<and> map (\<lambda>(t, e, v). (t, v)) (result_effects (fst (executeSkill 7 0 [1] heap0))) = [(1, 28)]
   \<and> currentEnergy (stats (ents (snd (executeSkill 7 0 [1] heap0)) 0)) = 70
   \<and> currentCooldown (skillObjs (snd (executeSkill 7 0 [1] heap0)) 7) = 3"
proof -
  have v: "calculateSkillEffect 200 player0 enemy0 = 28"
    by (rule skillEffect_200_15_5) (simp_all add: player0_def enemy0_def mkStats_def)
  have a: "attack (stats player0) = 15" and d: "defense (stats enemy0) = 5"
    by (simp_all add: player0_def enemy0_def mkStats_def)
  have w: "of_int \<lfloor>fmul (fmul 200 (fdiv 15 100)) (fsub 1 (fdiv 5 100))\<rfloor> = (28::real)"
    using v by (simp add: calculateSkillEffect_def a d)
  have c: "currentEnergy (stats player0) = 100"
    by (simp add: player0_def mkStats_def)
  from executeSkill_succeeds [of heap0 7 0 "[1]"] show ?thesis
    by (simp add: heap0_def powerStrike_def a d c w)
qed

text \<open>
  Claim C5 as stated fails on the value. The player (attack 15) uses \<open>Power Strike\<close> (base
  value 200) on a level-76 enemy (defense 80): the exact product
  \<open>200 * (15 / 100) * (1 - 80 / 100)\<close> is 6, and the program's doubles give
  \<open>5.999999999999998\<close>, so the value in the result is 5.
\<close>

theorem executeSkill_value_counterexample:
  "currentCooldown (skillObjs heap76 7) \<le> 0
   \<and> energyCost (skillObjs heap76 7) \<le> currentEnergy (stats (ents heap76 0))
   \<and> map (\<lambda>(t, e, v). (t, se_value e, v)) (result_effects (fst (executeSkill 7 0 [1] heap76)))
       = [(1, 200, 5)]
   \<and> attack (stats (ents heap76 0)) = 15
   \<and> defense (stats (ents heap76 1)) = 80
   \<and> \<lfloor>200 * (attack (stats (ents heap76 0)) / 100)
         * (1 - defense (stats (ents heap76 1)) / 100)\<rfloor> = 6"
proof -
  have v: "calculateSkillEffect 200 player0 enemy76 = 5"
    by (rule skillEffect_200_15_80) (simp_all add: player0_def enemy76_def mkStats_def)
  show ?thesis
    by (simp add: heap76_def powerStrike_def executeSkill_def Let_def v
          set_currentEnergy_def set_currentCooldown_def)
       (simp add: player0_def enemy76_def mkStats_def)
qed

section \<open>Properties of ProgressionManager\<close>

lemma purchaseUpgrade_refused:
  assumes "map_of (metaUpgrades (progress pm)) upgradeId = None
           \<or> (\<exists>u. map_of (metaUpgrades (progress pm)) upgradeId = Some u
                  \<and> (maxLevel u \<le> currentLevel u \<or> resources (progress pm) < cost u))"
  shows "purchaseUpgrade upgradeId pm = (False, pm)"
  using assms by (auto simp: purchaseUpgrade_def)

lemma purchaseUpgrade_bought:
  assumes "map_of (metaUpgrades (progress pm)) upgradeId = Some u"
    and "currentLevel u < maxLevel u" and "cost u \<le> resources (progress pm)"
  shows "purchaseUpgrade upgradeId pm =
     (True, saveProgress (pm\<lparr>progress := (progress pm)
        \<lparr>resources := resources (progress pm) - cost u,
         metaUpgrades := AList.update upgradeId
            (u\<lparr>currentLevel := currentLevel u + 1, cost := of_int \<lfloor>cost u * (3 / 2)\<rfloor>\<rparr>)
            (metaUpgrades (progress pm))\<rparr>\<rparr>))"
  using assms by (simp add: purchaseUpgrade_def Let_def)

text \<open>
  Claim C6. \<open>purchaseUpgrade\<close> returns \<open>false\<close> and leaves the whole manager (the balance
  and every upgrade) unchanged when the id is unknown, the upgrade is at its maximum level
  or the balance is below the cost. Otherwise it returns \<open>true\<close>, the balance is lowered
  by the cost, the upgrade has its level raised by 1 and its cost set to
  \<open>floor (cost * 1.5)\<close>, and every other upgrade is unchanged.
\<close>

theorem purchaseUpgrade_spec:
  "(map_of (metaUpgrades (progress pm)) upgradeId = None
      \<or> (\<exists>u. map_of (metaUpgrades (progress pm)) upgradeId = Some u
             \<and> (maxLevel u \<le> currentLevel u \<or> resources (progress pm) < cost u))
     \<longrightarrow> purchaseUpgrade upgradeId pm = (False, pm))
   \<and> (map_of (metaUpgrades (progress pm)) upgradeId = Some u
        \<and> currentLevel u < maxLevel u \<and> cost u \<le> resources (progress pm)
     \<longrightarrow> fst (purchaseUpgrade upgradeId pm) = True
         \<and> resources (progress (snd (purchaseUpgrade upgradeId pm)))
             = resources (progress pm) - cost u
         \<and> map_of (metaUpgrades (progress (snd (purchaseUpgrade upgradeId pm)))) upgradeId
             = Some (u\<lparr>currentLevel := currentLevel u + 1, cost := of_int \<lfloor>cost u * (3 / 2)\<rfloor>\<rparr>)
         \<and> (\<forall>k. k \<noteq> upgradeId \<longrightarrow>
               map_of (metaUpgrades (progress (snd (purchaseUpgrade upgradeId pm)))) k
                 = map_of (metaUpgrades (progress pm)) k))"
proof (intro conjI impI)
  assume "map_of (metaUpgrades (progress pm)) upgradeId = None
      \<or> (\<exists>u. map_of (metaUpgrades (progress pm)) upgradeId = Some u
             \<and> (maxLevel u \<le> currentLevel u \<or> resources (progress pm) < cost u))"
  then show "purchaseUpgrade upgradeId pm = (False, pm)"
    by (rule purchaseUpgrade_refused)
next
  assume a: "map_of (metaUpgrades (progress pm)) upgradeId = Some u
        \<and> currentLevel u < maxLevel u \<and> cost u \<le> resources (progress pm)"
  then have eq: "purchaseUpgrade upgradeId pm =
     (True, saveProgress (pm\<lparr>progress := (progress pm)
        \<lparr>resources := resources (progress pm) - cost u,
         metaUpgrades := AList.update upgradeId
            (u\<lparr>currentLevel := currentLevel u + 1, cost := of_int \<lfloor>cost u * (3 / 2)\<rfloor>\<rparr>)
            (metaUpgrades (progress pm))\<rparr>\<rparr>))"
    by (simp add: purchaseUpgrade_bought)
  show "fst (purchaseUpgrade upgradeId pm) = True"
    by (simp add: eq)
  show "resources (progress (snd (purchaseUpgrade upgradeId pm))) = resources (progress pm) - cost u"
    by (simp add: eq saveProgress_def)
  show "map_of (metaUpgrades (progress (snd (purchaseUpgrade upgradeId pm)))) upgradeId
          = Some (u\<lparr>currentLevel := currentLevel u + 1, cost := of_int \<lfloor>cost u * (3 / 2)\<rfloor>\<rparr>)"
    by (simp add: eq saveProgress_def update_conv')
  show "\<forall>k. k \<noteq> upgradeId \<longrightarrow>
          map_of (metaUpgrades (progress (snd (purchaseUpgrade upgradeId pm)))) k
            = map_of (metaUpgrades (progress pm)) k"
    by (simp add: eq saveProgress_def update_conv')
qed

theorem purchaseUpgrade_spec_witness:
  "purchaseUpgrade ''damage-boost'' (pm0 120)
     = (True, snd (purchaseUpgrade ''damage-boost'' (pm0 120)))
   \<and> resources (progress (snd (purchaseUpgrade ''damage-boost'' (pm0 120)))) = 20
   \<and> map_of (metaUpgrades (progress (snd (purchaseUpgrade ''damage-boost'' (pm0 120)))))
        ''damage-boost''
       = Some \<lparr>upgrade_id = ''damage-boost'', upgrade_name = ''Power Surge'',
               upgrade_type = DAMAGE_BOOST, upgrade_value = fl (5 / 100), cost = 150, maxLevel = 10,
               currentLevel = 1\<rparr>
   \<and> purchaseUpgrade ''damage-boost'' (pm0 99) = (False, pm0 99)
   \<and> purchaseUpgrade ''no-such-upgrade'' (pm0 120) = (False, pm0 120)"
proof -
  let ?u = "\<lparr>upgrade_id = ''damage-boost'', upgrade_name = ''Power Surge'',
             upgrade_type = DAMAGE_BOOST, upgrade_value = fl (5 / 100), cost = 100, maxLevel = 10,
             currentLevel = 0\<rparr>"
  have get: "map_of (metaUpgrades (progress (pm0 r))) ''damage-boost'' = Some ?u" for r
    by (simp add: pm0_def progress0_def defaultUpgrades_def)
  have none: "map_of (metaUpgrades (progress (pm0 r))) ''no-such-upgrade'' = None" for r
    by (simp add: pm0_def progress0_def defaultUpgrades_def)
  have res: "resources (progress (pm0 r)) = r" for r
    by (simp add: pm0_def progress0_def)
  have fl: "\<lfloor>(150::real)\<rfloor> = 150" by simp
  show ?thesis
    using purchaseUpgrade_spec [of "pm0 120" "''damage-boost''" ?u]
          purchaseUpgrade_spec [of "pm0 99" "''damage-boost''" ?u]
          purchaseUpgrade_spec [of "pm0 120" "''no-such-upgrade''" ?u]
    by (simp add: get none res prod_eq_iff)
qed

section \<open>Properties of CombatManager\<close>

subsection \<open>What the small steps leave unchanged\<close>

lemma heap_playAnimation [simp]: "heap (playAnimation e s m) = heap m"
  by (simp add: playAnimation_def)

lemma heap_track [simp]: "heap (track ty v m) = heap m"
  by (simp add: track_def)

lemma heap_removeEnemy [simp]: "heap (removeEnemy e m) = heap m"
  by (simp add: removeEnemy_def)

lemma pm_playAnimation [simp]:
  "progressionManager (playAnimation e s m) = progressionManager m"
  by (simp add: playAnimation_def)

lemma pm_track [simp]:
  "progressionManager (track ty v m) = trackCombatEvent ty v (progressionManager m)"
  by (simp add: track_def)

lemma pm_removeEnemy [simp]: "progressionManager (removeEnemy e m) = progressionManager m"
  by (simp add: removeEnemy_def)

lemma enemies_playAnimation [simp]: "enemies (playAnimation e s m) = enemies m"
  by (simp add: playAnimation_def)

lemma enemies_track [simp]: "enemies (track ty v m) = enemies m"
  by (simp add: track_def)

lemma enemies_removeEnemy [simp]: "enemies (removeEnemy e m) = remove1 e (enemies m)"
  by (simp add: removeEnemy_def remove1_idem)

lemma progress_trackCombatEvent [simp]: "progress (trackCombatEvent ty v pm) = progress pm"
  by (simp add: trackCombatEvent_def split: option.splits CombatEventType.splits)

lemma ents_set_currentHealth:
  "ents (set_currentHealth r v h) x =
     (if x = r then (ents h r)\<lparr>stats := (stats (ents h r))\<lparr>currentHealth := v\<rparr>\<rparr> else ents h x)"
  by (simp add: set_currentHealth_def)

lemma skillObjs_set_currentHealth [simp]: "skillObjs (set_currentHealth r v h) = skillObjs h"
  by (simp add: set_currentHealth_def)

lemma isPlayer_set_currentHealth [simp]:
  "isPlayer (ents (set_currentHealth r v h) x) = isPlayer (ents h x)"
  by (simp add: ents_set_currentHealth)

lemma level_set_currentHealth [simp]:
  "level (stats (ents (set_currentHealth r v h) x)) = level (stats (ents h x))"
  by (simp add: ents_set_currentHealth)

lemma attack_set_currentHealth [simp]:
  "attack (stats (ents (set_currentHealth r v h) x)) = attack (stats (ents h x))"
  by (simp add: ents_set_currentHealth)

lemma defense_set_currentHealth [simp]:
  "defense (stats (ents (set_currentHealth r v h) x)) = defense (stats (ents h x))"
  by (simp add: ents_set_currentHealth)

lemma maxHealth_set_currentHealth [simp]:
  "maxHealth (stats (ents (set_currentHealth r v h) x)) = maxHealth (stats (ents h x))"
  by (simp add: ents_set_currentHealth)

lemma energy_set_currentHealth [simp]:
  "currentEnergy (stats (ents (set_currentHealth r v h) x)) = currentEnergy (stats (ents h x))"
  "maxEnergy (stats (ents (set_currentHealth r v h) x)) = maxEnergy (stats (ents h x))"
  by (simp_all add: ents_set_currentHealth)

lemma currentHealth_set_currentHealth [simp]:
  "currentHealth (stats (ents (set_currentHealth r v h) x)) =
     (if x = r then v else currentHealth (stats (ents h x)))"
  by (simp add: ents_set_currentHealth)

subsection \<open>Attack resolution\<close>

lemma heap_handleAttack:
  "heap (handleAttack a t m) =
     set_currentHealth t (max 0 (health_of m t
        - max 1 (attack (stats (ents (heap m) a)) - defense (stats (ents (heap m) t))))) (heap m)"
  by (simp add: handleAttack_def Let_def health_of_def)


lemma run_handleAttack:
  "currentRun (progressionManager (handleAttack a t m)) =
     (case currentRun (progressionManager m) of
        None \<Rightarrow> None
      | Some r \<Rightarrow>
          Some (let dmg = max 1 (attack (stats (ents (heap m) a)) - defense (stats (ents (heap m) t)));
                    r1 = (if isPlayer (ents (heap m) a) then r\<lparr>damageDealt := damageDealt r + dmg\<rparr>
                          else r\<lparr>damageTaken := damageTaken r + dmg\<rparr>)
                in if health_of m t - dmg \<le> 0 \<and> \<not> isPlayer (ents (heap m) t)
                   then r1\<lparr>enemiesDefeated := enemiesDefeated r1 + 1,
                           resourcesGained := resourcesGained r1
                             + calculateResourceGain (progress (progressionManager m))
                                 (level (stats (ents (heap m) t)))\<rparr>
                   else r1))"
  by (auto simp add: handleAttack_def Let_def health_of_def trackCombatEvent_def
      split: option.splits)

lemma progress_handleAttack [simp]:
  "progress (progressionManager (handleAttack a t m)) = progress (progressionManager m)"
  by (simp add: handleAttack_def Let_def)

lemma enemies_handleAttack:
  "enemies (handleAttack a t m) =
     (if health_of (handleAttack a t m) t \<le> 0 \<and> \<not> isPlayer (ents (heap m) t)
      then remove1 t (enemies m) else enemies m)"
  by (auto simp add: handleAttack_def Let_def health_of_def)

lemma resolveAction_attack:
  "resolveAction (ATTACK_action s t d) m =
     handleAttack s t (m\<lparr>rndPos := snd (checkTrigger (passiveManager m) ON_ATTACK (heap m) s
                                     (Some t) (Some d) (rnd m) (rndPos m))\<rparr>)"
  by (simp add: case_prod_unfold Let_def)


subsection \<open>Attacks on a target that is already dead\<close>

lemma heap_resolve_attack:
  "heap (resolveAction (ATTACK_action a t d) m) =
     set_currentHealth t (max 0 (health_of m t
        - max 1 (attack (stats (ents (heap m) a)) - defense (stats (ents (heap m) t))))) (heap m)"
  unfolding resolveAction_attack by (simp add: heap_handleAttack health_of_def)

lemma progress_resolve_attack:
  "progress (progressionManager (resolveAction (ATTACK_action a t d) m))
     = progress (progressionManager m)"
  unfolding resolveAction_attack by simp

lemma run_resolve_attack_lethal:
  assumes "currentRun (progressionManager m) = Some r" and "\<not> isPlayer (ents (heap m) t)"
    and "health_of m t \<le> max 1 (attack (stats (ents (heap m) a)) - defense (stats (ents (heap m) t)))"
  shows "\<exists>r'. currentRun (progressionManager (resolveAction (ATTACK_action a t d) m)) = Some r'
           \<and> enemiesDefeated r' = enemiesDefeated r + 1
           \<and> resourcesGained r' = resourcesGained r
                + calculateResourceGain (progress (progressionManager m))
                    (level (stats (ents (heap m) t)))"
  using assms unfolding resolveAction_attack
  by (simp add: run_handleAttack health_of_def Let_def)

lemma processActions_two:
  "processActions (m\<lparr>actionQueue := [x, y]\<rparr>) =
     (resolveAction y ((resolveAction x (m\<lparr>actionQueue := [x, y]\<rparr>))\<lparr>actionQueue := [y]\<rparr>))
       \<lparr>actionQueue := []\<rparr>"
  by (simp add: processActions_def del: resolveAction.simps)

text \<open>
  Claim C10. While a run is active, resolving an attack on a target that is not the player
  and whose health is already 0 (or below) counts one more defeated enemy and adds the
  resource reward for the target's level again. So two queued attacks on the same enemy,
  the first of them lethal, count that enemy twice and pay its reward twice.
\<close>

theorem dead_target_counted_again:
  assumes run: "currentRun (progressionManager m) = Some r"
    and np: "\<not> isPlayer (ents (heap m) t)"
  shows "(health_of m t \<le> 0 \<longrightarrow>
            map_option enemiesDefeated
              (currentRun (progressionManager (resolveAction (ATTACK_action a t d) m)))
              = Some (enemiesDefeated r + 1)
          \<and> map_option resourcesGained
              (currentRun (progressionManager (resolveAction (ATTACK_action a t d) m)))
              = Some (resourcesGained r
                  + calculateResourceGain (progress (progressionManager m))
                      (level (stats (ents (heap m) t)))))
       \<and> (health_of m t \<le> max 1 (attack (stats (ents (heap m) a)) - defense (stats (ents (heap m) t)))
          \<longrightarrow>
            map_option enemiesDefeated
              (currentRun (progressionManager
                 (processActions (m\<lparr>actionQueue := [ATTACK_action a t d, ATTACK_action b t d']\<rparr>))))
              = Some (enemiesDefeated r + 2)
          \<and> map_option resourcesGained
              (currentRun (progressionManager
                 (processActions (m\<lparr>actionQueue := [ATTACK_action a t d, ATTACK_action b t d']\<rparr>))))
              = Some (resourcesGained r
                  + 2 * calculateResourceGain (progress (progressionManager m))
                      (level (stats (ents (heap m) t)))))"
proof (intro conjI impI)
  assume dead: "health_of m t \<le> 0"
  have "0 \<le> max 1 (attack (stats (ents (heap m) a)) - defense (stats (ents (heap m) t)))"
    by simp
  with dead have "health_of m t
      \<le> max 1 (attack (stats (ents (heap m) a)) - defense (stats (ents (heap m) t)))"
    by (rule order_trans)
  from run_resolve_attack_lethal [OF run np this, of d]
  show "map_option enemiesDefeated
          (currentRun (progressionManager (resolveAction (ATTACK_action a t d) m)))
          = Some (enemiesDefeated r + 1)"
    and "map_option resourcesGained
          (currentRun (progressionManager (resolveAction (ATTACK_action a t d) m)))
          = Some (resourcesGained r
              + calculateResourceGain (progress (progressionManager m))
                  (level (stats (ents (heap m) t))))"
    by auto
next
  assume lethal: "health_of m t
      \<le> max 1 (attack (stats (ents (heap m) a)) - defense (stats (ents (heap m) t)))"
  let ?q = "[ATTACK_action a t d, ATTACK_action b t d']"
  let ?m0 = "m\<lparr>actionQueue := ?q\<rparr>"
  let ?m1 = "(resolveAction (ATTACK_action a t d) ?m0)\<lparr>actionQueue := [ATTACK_action b t d']\<rparr>"
  let ?g = "calculateResourceGain (progress (progressionManager m)) (level (stats (ents (heap m) t)))"
  have run0: "currentRun (progressionManager ?m0) = Some r"
    and np0: "\<not> isPlayer (ents (heap ?m0) t)"
    and lethal0: "health_of ?m0 t
      \<le> max 1 (attack (stats (ents (heap ?m0) a)) - defense (stats (ents (heap ?m0) t)))"
    using run np lethal by (simp_all add: health_of_def)
  from run_resolve_attack_lethal [OF run0 np0 lethal0, of d]
  obtain r1 where r1: "currentRun (progressionManager ?m1) = Some r1"
    and e1: "enemiesDefeated r1 = enemiesDefeated r + 1"
    and g1: "resourcesGained r1 = resourcesGained r + ?g"
    by (auto simp del: resolveAction.simps)
  have np1: "\<not> isPlayer (ents (heap ?m1) t)"
    using np by (simp add: heap_resolve_attack del: resolveAction.simps)
  have h1: "health_of ?m1 t = 0"
    using lethal by (simp add: health_of_def heap_resolve_attack del: resolveAction.simps)
  have lethal1: "health_of ?m1 t
      \<le> max 1 (attack (stats (ents (heap ?m1) b)) - defense (stats (ents (heap ?m1) t)))"
    unfolding h1 by simp
  have lv: "level (stats (ents (heap ?m1) t)) = level (stats (ents (heap m) t))"
    by (simp add: heap_resolve_attack del: resolveAction.simps)
  have pr: "progress (progressionManager ?m1) = progress (progressionManager m)"
    by (simp add: progress_resolve_attack del: resolveAction.simps)
  from run_resolve_attack_lethal [OF r1 np1 lethal1, of d']
  obtain r2 where r2: "currentRun (progressionManager (resolveAction (ATTACK_action b t d') ?m1)) = Some r2"
    and e2: "enemiesDefeated r2 = enemiesDefeated r1 + 1"
    and g2: "resourcesGained r2 = resourcesGained r1 + ?g"
    unfolding lv pr by blast
  have fin: "currentRun (progressionManager (processActions ?m0)) = Some r2"
    unfolding processActions_two using r2 by (simp del: resolveAction.simps)
  show "map_option enemiesDefeated (currentRun (progressionManager (processActions ?m0)))
          = Some (enemiesDefeated r + 2)"
    by (simp add: fin e2 e1)
  show "map_option resourcesGained (currentRun (progressionManager (processActions ?m0)))
          = Some (resourcesGained r + 2 * ?g)"
    by (simp add: fin g2 g1)
qed

theorem dead_target_counted_again_witness:
  "currentRun (progressionManager combatDead) = Some run0
   \<and> \<not> isPlayer (ents (heap combatDead) 1)
   \<and> health_of combatDead 1 = 0
   \<and> map_option enemiesDefeated
        (currentRun (progressionManager (resolveAction (ATTACK_action 0 1 10) combatDead)))
       = Some 1
   \<and> health_of combatLow 1 = 10
   \<and> map_option enemiesDefeated
        (currentRun (progressionManager
           (processActions (combatLow\<lparr>actionQueue := [ATTACK_action 0 1 10, ATTACK_action 0 1 10]\<rparr>))))
       = Some 2"
proof -
  have a: "currentRun (progressionManager combatDead) = Some run0"
    and b: "\<not> isPlayer (ents (heap combatDead) 1)"
    and c: "health_of combatDead (Suc 0) = 0"
    by (simp_all add: combatDead_def combat0_def pm0_def health_of_def withHealth_def enemy0_def)
  have a': "currentRun (progressionManager combatLow) = Some run0"
    and b': "\<not> isPlayer (ents (heap combatLow) 1)"
    and c': "health_of combatLow (Suc 0) = 10"
    and d': "attack (stats (ents (heap combatLow) 0)) = 15"
            "defense (stats (ents (heap combatLow) (Suc 0))) = 5"
    by (simp_all add: combatLow_def combat0_def pm0_def health_of_def withHealth_def enemy0_def
          player0_def mkStats_def heap0_def)
  have e: "enemiesDefeated run0 = 0"
    by (simp add: run0_def)
  from dead_target_counted_again [OF a b, of 0 10 0 10]
       dead_target_counted_again [OF a' b', of 0 10 0 10]
  show ?thesis
    using b b' by (simp add: a c a' c' d' e del: resolveAction.simps)
qed

subsection \<open>Running rounds on concrete states\<close>

lemmas round_defs =
  update_def updateActions_def processRound_def aliveEntities_def js_sort_def determineAction_def
  determinePlayerAction_def determineEnemyAction_def findNearestEnemy_def getAvailableSkills_def
  isWithinAttackRange_def ATTACK_RANGE_def ROUND_DURATION_def calculateDamage_def
  processActions_def checkTrigger_def getActivePassives_def handleAttack_def playAnimation_def
  track_def trackCombatEvent_def removeEnemy_def health_of_def updateCooldowns_def
  checkCombatEnd_def combatEndResult_def endCombat_def calculateExperienceGain_def
  generateLoot_def List.map_filter_def Let_def

lemmas entity_defs = withHealth_def player0_def enemy0_def mkStats_def origin_def

lemma duel_combat0: "duel combat0 0 100 50"
  by (simp add: duel_def combat0_def heap0_def pm0_def run0_def entity_defs)

lemma duel_step:
  assumes "duel m t ph eh" and "10 < eh" and "1 < ph"
  shows "duel (update (t + 2000) stamp m) (t + 2000) (ph - 1) (eh - 10)"
  using assms
  by (auto simp add: duel_def round_defs entity_defs ents_set_currentHealth split: option.splits)

lemma duel_last:
  assumes "duel m t ph 10" and "1 < ph"
  shows "enemies (updateActions (t + 2000) stamp m) = []"
    and "health_of (updateActions (t + 2000) stamp m) 0 = ph - 1"
    and "health_of (updateActions (t + 2000) stamp m) 1 = 0"
    and "combatEndResult (updateActions (t + 2000) stamp m)
           = Some \<lparr>result_state = VICTORY, winner = Some 0, experienceGained = Some 0,
                   lootDropped = Some []\<rparr>"
    and "map_option enemiesDefeated
           (currentRun (progressionManager (updateActions (t + 2000) stamp m))) = Some 1"
    and "currentState (update (t + 2000) stamp m) = VICTORY"
  using assms
  by (auto simp add: duel_def round_defs entity_defs ents_set_currentHealth split: option.splits)

lemma duel_round4:
  "duel (update 8000 8000 (update 6000 6000 (update 4000 4000 (update 2000 2000 combat0))))
     8000 96 10"
  using duel_step [OF duel_step [OF duel_step [OF duel_step [OF duel_combat0,
          of 2000], of 4000], of 6000], of 8000]
  by simp

text \<open>
  Claim C2, on the code. The player (attack 15, defense 10, health 100) fights one level-1
  enemy (attack 10, defense 5, health 50) within attack range, with no skill equipped. The
  fifth round kills the enemy, \<open>handleAttack\<close> removes it from \<open>enemies\<close> at once, and the
  combat ends in victory with \<open>experienceGained = 0\<close>: \<open>calculateExperienceGain\<close> sums over
  the enemies still in the list, and the defeated enemy is no longer there.
\<close>

theorem victory_grants_no_experience:
  "enemies (updateActions 10000 10000
      (update 8000 8000 (update 6000 6000 (update 4000 4000 (update 2000 2000 combat0))))) = []
   \<and> health_of (updateActions 10000 10000
      (update 8000 8000 (update 6000 6000 (update 4000 4000 (update 2000 2000 combat0))))) 0 = 95
   \<and> health_of (updateActions 10000 10000
      (update 8000 8000 (update 6000 6000 (update 4000 4000 (update 2000 2000 combat0))))) 1 = 0
   \<and> combatEndResult (updateActions 10000 10000
      (update 8000 8000 (update 6000 6000 (update 4000 4000 (update 2000 2000 combat0)))))
       = Some \<lparr>result_state = VICTORY, winner = Some 0, experienceGained = Some 0,
               lootDropped = Some []\<rparr>
   \<and> map_option enemiesDefeated (currentRun (progressionManager (updateActions 10000 10000
      (update 8000 8000 (update 6000 6000 (update 4000 4000 (update 2000 2000 combat0)))))))
       = Some 1
   \<and> currentState (update 10000 10000
      (update 8000 8000 (update 6000 6000 (update 4000 4000 (update 2000 2000 combat0)))))
       = VICTORY"
  using duel_last [OF duel_round4, of 10000] by simp

text \<open>
  Claim C1, on the code. With the passive \<open>Life Steal\<close> equipped, the player's attack of
  the first round has damage 10, the passive triggers with effect value 1, and the loop
  over the triggered effects computes \<open>finalDamage = 10 * (1 + 1) = 20\<close>. The enemy's
  health still goes from 50 to 40: \<open>handleAttack\<close> subtracts the base damage, and
  \<open>finalDamage\<close> is never used.
\<close>

theorem attack_ignores_passive_modifiers:
  "actionQueue (processRound 2000 combatLS) = [ATTACK_action 0 1 10, ATTACK_action 1 0 1]
   \<and> map pr_effects (fst (checkTrigger (passiveManager combatLS) ON_ATTACK (heap combatLS) 0
        (Some 1) (Some 10) (rnd combatLS) (rndPos combatLS))) = [[(LIFE_STEAL, 1)]]
   \<and> applyAttackModifiers (fst (checkTrigger (passiveManager combatLS) ON_ATTACK (heap combatLS) 0
        (Some 1) (Some 10) (rnd combatLS) (rndPos combatLS))) 10 = 20
   \<and> health_of combatLS 1 = 50
   \<and> health_of (updateActions 2000 2000 combatLS) 1 = 40"
  by (simp add: combatLS_def combat0_def heap0_def pm0_def progress0_def run0_def lifeSteal_def
        round_defs entity_defs rollPassive_def passiveEffect_level1_trigger10
        applyAttackModifiers_def set_currentHealth_def)

subsection \<open>The order of a round\<close>

lemma insort_cmp_key:
  "insort_cmp (\<lambda>a b. f b - f a) x ys = insort_key (\<lambda>a. - f a) x ys"
  for f :: "'a \<Rightarrow> real"
  by (induction ys) simp_all

lemma js_sort_key: "js_sort (\<lambda>a b. f b - f a) xs = sort_key (\<lambda>a. - f a) xs"
  for f :: "'a \<Rightarrow> real"
  by (induction xs) (simp_all add: js_sort_def insort_cmp_key)

lemma aliveEntities_sort:
  "aliveEntities m = sort_key (\<lambda>e. - speed (stats (ents (heap m) e))) (living m)"
  by (simp add: aliveEntities_def js_sort_key living_def health_of_def)

lemma aliveEntities_queue [simp]: "aliveEntities (m\<lparr>actionQueue := q\<rparr>) = aliveEntities m"
  by (simp add: aliveEntities_def)

lemma determineAction_queue [simp]:
  "determineAction e (m\<lparr>actionQueue := q\<rparr>) = determineAction e m"
  by (simp add: determineAction_def determinePlayerAction_def determineEnemyAction_def
        findNearestEnemy_def cong: option.case_cong list.case_cong if_cong)

lemma actionQueue_processRound:
  "actionQueue (processRound stamp m) = List.map_filter (\<lambda>e. determineAction e m) (aliveEntities m)"
  by (simp add: processRound_def Let_def)

lemma source_determineAction:
  assumes "determineAction e m = Some a" and "isPlayer (ents (heap m) e) \<Longrightarrow> e = player m"
  shows "action_source a = e"
  using assms
  by (auto simp add: determineAction_def determinePlayerAction_def determineEnemyAction_def
      split: if_splits option.splits list.splits)

lemma sources_map_filter:
  assumes "\<And>e. e \<in> set xs \<Longrightarrow> isPlayer (ents (heap m) e) \<Longrightarrow> e = player m"
  shows "map action_source (List.map_filter (\<lambda>e. determineAction e m) xs)
           = filter (\<lambda>e. determineAction e m \<noteq> None) xs"
  using assms
proof (induction xs)
  case Nil
  show ?case by (simp add: List.map_filter_simps)
next
  case (Cons x xs)
  then have IH: "map action_source (List.map_filter (\<lambda>e. determineAction e m) xs)
           = filter (\<lambda>e. determineAction e m \<noteq> None) xs"
    by simp
  show ?case
  proof (cases "determineAction x m")
    case None
    then show ?thesis by (simp add: List.map_filter_simps IH)
  next
    case (Some a)
    have "action_source a = x"
      using Some Cons.prems by (intro source_determineAction [of x m a]) auto
    with Some show ?thesis by (simp add: List.map_filter_simps IH)
  qed
qed

lemma set_aliveEntities: "set (aliveEntities m) \<subseteq> insert (player m) (set (enemies m))"
  by (auto simp add: aliveEntities_sort living_def)

text \<open>
  Claim C8. \<open>processRound\<close> keeps the combatants with \<open>currentHealth > 0\<close> out of the player
  followed by the enemies in list order (\<open>living\<close>), and sorts them by speed, highest
  first: the sorted list is a permutation of the living combatants, is descending in speed,
  and keeps combatants of equal speed in their original relative order. The action queue
  holds the actions of the sorted combatants in that order (a combatant with no action is
  skipped), so, where only the player is flagged \<open>isPlayer\<close>, the sources of the queued
  actions are the sorted combatants that have an action. With speeds 10, 5 and 15 the
  actions are queued for the combatants of speed 15, 10 and 5, in this order.
\<close>

theorem round_order:
  assumes "list_all (\<lambda>e. \<not> isPlayer (ents (heap m) e)) (enemies m)"
  shows "mset (aliveEntities m) = mset (living m)
    \<and> sorted_wrt (\<lambda>a b. speed (stats (ents (heap m) b)) \<le> speed (stats (ents (heap m) a)))
         (aliveEntities m)
    \<and> (\<forall>k. filter (\<lambda>e. speed (stats (ents (heap m) e)) = k) (aliveEntities m)
            = filter (\<lambda>e. speed (stats (ents (heap m) e)) = k) (living m))
    \<and> actionQueue (processRound stamp m)
        = List.map_filter (\<lambda>e. determineAction e m) (aliveEntities m)
    \<and> map action_source (actionQueue (processRound stamp m))
        = filter (\<lambda>e. determineAction e m \<noteq> None) (aliveEntities m)
    \<and> map (\<lambda>e. speed (stats (ents (heap arena) e))) (player arena # enemies arena) = [10, 5, 15]
    \<and> map (\<lambda>e. speed (stats (ents (heap arena) e)))
         (map action_source (actionQueue (processRound stamp arena))) = [15, 10, 5]"
proof -
  let ?key = "\<lambda>e. - speed (stats (ents (heap m) e))"
  have 1: "mset (aliveEntities m) = mset (living m)"
    by (simp add: aliveEntities_sort)
  have "sorted (map ?key (aliveEntities m))"
    by (simp add: aliveEntities_sort)
  then have 2: "sorted_wrt (\<lambda>a b. speed (stats (ents (heap m) b)) \<le> speed (stats (ents (heap m) a)))
         (aliveEntities m)"
    by (simp add: sorted_map)
  have 3: "filter (\<lambda>e. speed (stats (ents (heap m) e)) = k) (aliveEntities m)
            = filter (\<lambda>e. speed (stats (ents (heap m) e)) = k) (living m)" for k
    using sort_key_stable [of ?key "- k" "living m"] by (simp add: aliveEntities_sort)
  note 4 = actionQueue_processRound [of stamp m]
  have "e = player m" if "e \<in> set (aliveEntities m)" and "isPlayer (ents (heap m) e)" for e
    using that assms set_aliveEntities [of m] by (auto simp add: list_all_iff)
  then have 5: "map action_source (actionQueue (processRound stamp m))
        = filter (\<lambda>e. determineAction e m \<noteq> None) (aliveEntities m)"
    unfolding 4 by (rule sources_map_filter)
  have 6: "map (\<lambda>e. speed (stats (ents (heap arena) e))) (player arena # enemies arena) = [10, 5, 15]"
    by (simp add: arena_def combat0_def heap0_def entity_defs)
  have 7: "map (\<lambda>e. speed (stats (ents (heap arena) e)))
         (map action_source (actionQueue (processRound stamp arena))) = [15, 10, 5]"
    by (simp add: arena_def combat0_def heap0_def entity_defs round_defs)
  from 1 2 3 4 5 6 7 show ?thesis by blast
qed

theorem round_order_witness:
  "list_all (\<lambda>e. \<not> isPlayer (ents (heap arena) e)) (enemies arena)
   \<and> aliveEntities arena = [2, 0, 1]
   \<and> map action_source (actionQueue (processRound 2000 arena)) = [2, 0, 1]
   \<and> actionQueue (processRound 2000 arena)
       = [ATTACK_action 2 0 1, ATTACK_action 0 1 10, ATTACK_action 1 0 1]"
proof -
  have h: "list_all (\<lambda>e. \<not> isPlayer (ents (heap arena) e)) (enemies arena)"
    by (simp add: arena_def combat0_def heap0_def entity_defs)
  have a: "aliveEntities arena = [2, 0, 1]"
    by (simp add: arena_def combat0_def heap0_def entity_defs aliveEntities_def js_sort_def)
  have d: "map (\<lambda>e. determineAction e arena) [2, 0, 1]
             = [Some (ATTACK_action 2 0 1), Some (ATTACK_action 0 1 10), Some (ATTACK_action 1 0 1)]"
    by (simp add: arena_def combat0_def heap0_def entity_defs round_defs)
  from round_order [OF h, of 2000] show ?thesis
    using h d by (simp add: a List.map_filter_simps)
qed

section \<open>Properties of GearManager\<close>

lemma fields_addStats [simp]:
  "g_attack (addStats s acc) = g_attack acc + g_attack s"
  "g_defense (addStats s acc) = g_defense acc + g_defense s"
  "g_health (addStats s acc) = g_health acc + g_health s"
  "g_speed (addStats s acc) = g_speed acc + g_speed s"
  "g_energy (addStats s acc) = g_energy acc + g_energy s"
  by (simp_all add: addStats_def)

lemma fields_fold_addStats:
  "g_attack (fold addStats xs acc) = g_attack acc + sum_list (map g_attack xs)"
  "g_defense (fold addStats xs acc) = g_defense acc + sum_list (map g_defense xs)"
  "g_health (fold addStats xs acc) = g_health acc + sum_list (map g_health xs)"
  "g_speed (fold addStats xs acc) = g_speed acc + sum_list (map g_speed xs)"
  "g_energy (fold addStats xs acc) = g_energy acc + sum_list (map g_energy xs)"
  by (induction xs arbitrary: acc) simp_all

lemma applySetEntry_fold:
  "applySetEntry gm entry acc = fold addStats (map bonus_stats (unlockedTiers gm entry)) acc"
  by (simp add: applySetEntry_def unlockedTiers_def activeTiers_def fold_map comp_def
      split: option.splits)

lemma fold_applySetEntry:
  "fold (applySetEntry gm) sp acc
     = fold addStats (map bonus_stats (concat (map (unlockedTiers gm) sp))) acc"
  by (induction sp arbitrary: acc) (simp_all add: applySetEntry_fold)

lemma calculateSetBonuses_fold:
  "calculateSetBonuses gm = fold addStats (activeBonusStats gm) zeroStats"
  by (simp add: calculateSetBonuses_def activeBonusStats_def fold_applySetEntry)

lemma sumBaseStats_fold:
  "fold (\<lambda>item acc. case item of None \<Rightarrow> acc | Some it \<Rightarrow> addStats (baseStats it) acc) items acc
     = fold addStats (map baseStats
         (concat (map (\<lambda>item. case item of None \<Rightarrow> [] | Some it \<Rightarrow> [it]) items))) acc"
  by (induction items arbitrary: acc) (simp_all split: option.splits)

lemma sumBaseStats_items:
  "sumBaseStats gm = fold addStats (map baseStats (equippedItems gm)) zeroStats"
  by (simp add: sumBaseStats_def equippedItems_def sumBaseStats_fold)

lemma setIdOf_shape: "setIdOf item = [] \<or> (\<exists>sid. setIdOf item = [sid])"
  by (simp add: setIdOf_def split: option.splits)

lemma countPiece_none: "setIdOf item = [] \<Longrightarrow> countPiece item sp = sp"
  by (auto simp add: setIdOf_def countPiece_def split: option.splits if_splits)

lemma countPiece_some:
  "setIdOf item = [sid] \<Longrightarrow>
     countPiece item sp
       = AList.update sid ((case map_of sp sid of None \<Rightarrow> 0 | Some c \<Rightarrow> c) + 1) sp"
  by (auto simp add: setIdOf_def countPiece_def split: option.splits if_splits)

lemma counted_step:
  assumes "counted sp ids"
  shows "counted (countPiece item sp) (ids @ setIdOf item)"
proof -
  from assms have d: "distinct (map fst sp)"
    and m: "\<And>x. map_of sp x = (if x \<in> set ids then Some (count_list ids x) else None)"
    by (simp_all add: counted_def)
  from setIdOf_shape [of item] show ?thesis
  proof
    assume "setIdOf item = []"
    then show ?thesis using assms by (simp add: countPiece_none)
  next
    assume "\<exists>sid. setIdOf item = [sid]"
    then obtain sid where sid: "setIdOf item = [sid]" ..
    have c: "(case map_of sp sid of None \<Rightarrow> 0 | Some c \<Rightarrow> c) = count_list ids sid"
      by (simp add: m)
    have "distinct (map fst (AList.update sid (count_list ids sid + 1) sp))"
      using d by (rule distinct_update)
    moreover have "map_of (AList.update sid (count_list ids sid + 1) sp) x
        = (if x \<in> set (ids @ [sid]) then Some (count_list (ids @ [sid]) x) else None)" for x
      by (simp add: update_conv' m)
    ultimately show ?thesis
      unfolding counted_def countPiece_some [OF sid] sid c by blast
  qed
qed

lemma counted_fold:
  "counted sp ids \<Longrightarrow> counted (fold countPiece items sp) (ids @ concat (map setIdOf items))"
proof (induction items arbitrary: sp ids)
  case Nil
  then show ?case by simp
next
  case (Cons item items)
  from Cons.IH [OF counted_step [OF Cons.prems, of item]]
  show ?case by simp
qed

lemma counted_countSetPieces: "counted (countSetPieces gm) (equippedSetIds gm)"
  using counted_fold [of "[]" "[]" "loadout_values (loadout gm)"]
  by (simp add: counted_def countSetPieces_def equippedSetIds_def)

lemma counted_keys:
  assumes "counted sp ids"
  shows "set (map fst sp) = set ids"
    and "list_all (\<lambda>entry. snd entry = count_list ids (fst entry)) sp"
proof -
  from assms have d: "distinct (map fst sp)"
    and m: "\<And>sid. map_of sp sid = (if sid \<in> set ids then Some (count_list ids sid) else None)"
    by (simp_all add: counted_def)
  show "set (map fst sp) = set ids"
  proof -
    have "set (map fst sp) = dom (map_of sp)" by (simp add: dom_map_of_conv_image_fst)
    also have "\<dots> = set ids" by (auto simp add: dom_def m)
    finally show ?thesis .
  qed
  show "list_all (\<lambda>entry. snd entry = count_list ids (fst entry)) sp"
    unfolding list_all_iff
  proof
    fix entry assume "entry \<in> set sp"
    then have "map_of sp (fst entry) = Some (snd entry)"
      using d map_of_eq_Some_iff [of sp "fst entry" "snd entry"] by simp
    then show "snd entry = count_list ids (fst entry)"
      by (simp add: m split: if_splits)
  qed
qed

lemmas gear_defs = gear3_def gear4_def warriorSet_def tier2_def tier4_def basicSword_def
  basicShield_def leatherHelmet_def warriorChest_def loadout_values_def countSetPieces_def
  countPiece_def

lemma count_gear4: "countSetPieces gear4 = [(''warrior'', 4)]"
  by (simp add: gear_defs)

lemma count_gear3: "countSetPieces gear3 = [(''warrior'', 3)]"
  by (simp add: gear_defs)

lemma active_gear4: "activeBonusStats gear4 = [bonus_stats tier2, bonus_stats tier4]"
  by (simp add: activeBonusStats_def count_gear4 unlockedTiers_def)
     (simp add: gear4_def warriorSet_def tier2_def tier4_def)

lemma active_gear3: "activeBonusStats gear3 = [bonus_stats tier2]"
  by (simp add: activeBonusStats_def count_gear3 unlockedTiers_def)
     (simp add: gear3_def warriorSet_def tier2_def tier4_def)

lemma bonuses_gear4:
  "calculateSetBonuses gear4
     = \<lparr>g_attack = 20, g_defense = 20, g_health = 70, g_speed = 2, g_energy = 30\<rparr>"
  by (simp add: calculateSetBonuses_fold active_gear4 addStats_def zeroStats_def tier2_def tier4_def)

lemma bonuses_gear3:
  "calculateSetBonuses gear3
     = \<lparr>g_attack = 5, g_defense = 5, g_health = 20, g_speed = 0, g_energy = 10\<rparr>"
  by (simp add: calculateSetBonuses_fold active_gear3 addStats_def zeroStats_def tier2_def)

lemma base_gear4:
  "sumBaseStats gear4
     = \<lparr>g_attack = 10, g_defense = 15, g_health = 30, g_speed = - 1, g_energy = 5\<rparr>"
  by (simp add: sumBaseStats_def gear_defs addStats_def zeroStats_def)

lemma base_gear3:
  "sumBaseStats gear3
     = \<lparr>g_attack = 10, g_defense = 15, g_health = 30, g_speed = - 1, g_energy = 5\<rparr>"
  by (simp add: sumBaseStats_def gear_defs addStats_def zeroStats_def)

text \<open>
  Claim C7. \<open>calculateTotalStats\<close> adds the set bonuses to the summed base stats of the
  equipped items. The counting loop has one entry per distinct set id among the equipped
  items, holding the number of equipped pieces of that set, and every tier of a known set
  whose piece threshold is at most that number contributes its stat block: the bonus is the
  sum, stat by stat, over all these tiers. With four pieces of the warrior set the 2-piece
  and the 4-piece blocks are both included; with three pieces only the 2-piece block is.
\<close>

theorem set_bonuses_cumulative:
  "distinct (map fst (countSetPieces gm))
   \<and> set (map fst (countSetPieces gm)) = set (equippedSetIds gm)
   \<and> list_all (\<lambda>entry. snd entry = count_list (equippedSetIds gm) (fst entry)) (countSetPieces gm)
   \<and> g_attack (calculateSetBonuses gm) = sum_list (map g_attack (activeBonusStats gm))
   \<and> g_defense (calculateSetBonuses gm) = sum_list (map g_defense (activeBonusStats gm))
   \<and> g_health (calculateSetBonuses gm) = sum_list (map g_health (activeBonusStats gm))
   \<and> g_speed (calculateSetBonuses gm) = sum_list (map g_speed (activeBonusStats gm))
   \<and> g_energy (calculateSetBonuses gm) = sum_list (map g_energy (activeBonusStats gm))
   \<and> total_stats (calculateTotalStats gm)
       = addStats (calculateSetBonuses gm) (fold addStats (map baseStats (equippedItems gm)) zeroStats)
   \<and> countSetPieces gear4 = [(''warrior'', 4)]
   \<and> activeBonusStats gear4 = [bonus_stats tier2, bonus_stats tier4]
   \<and> calculateSetBonuses gear4
       = \<lparr>g_attack = 20, g_defense = 20, g_health = 70, g_speed = 2, g_energy = 30\<rparr>
   \<and> total_stats (calculateTotalStats gear4)
       = \<lparr>g_attack = 30, g_defense = 35, g_health = 100, g_speed = 1, g_energy = 35\<rparr>
   \<and> countSetPieces gear3 = [(''warrior'', 3)]
   \<and> activeBonusStats gear3 = [bonus_stats tier2]
   \<and> calculateSetBonuses gear3
       = \<lparr>g_attack = 5, g_defense = 5, g_health = 20, g_speed = 0, g_energy = 10\<rparr>
   \<and> total_stats (calculateTotalStats gear3)
       = \<lparr>g_attack = 15, g_defense = 20, g_health = 50, g_speed = - 1, g_energy = 15\<rparr>"
proof -
  note c = counted_countSetPieces [of gm]
  have 1: "distinct (map fst (countSetPieces gm))"
    using c by (simp add: counted_def)
  note 2 = counted_keys(1) [OF c] and 3 = counted_keys(2) [OF c]
  have 4: "g_attack (calculateSetBonuses gm) = sum_list (map g_attack (activeBonusStats gm))"
    and 5: "g_defense (calculateSetBonuses gm) = sum_list (map g_defense (activeBonusStats gm))"
    and 6: "g_health (calculateSetBonuses gm) = sum_list (map g_health (activeBonusStats gm))"
    and 7: "g_speed (calculateSetBonuses gm) = sum_list (map g_speed (activeBonusStats gm))"
    and 8: "g_energy (calculateSetBonuses gm) = sum_list (map g_energy (activeBonusStats gm))"
    by (simp_all add: calculateSetBonuses_fold fields_fold_addStats zeroStats_def)
  have 9: "total_stats (calculateTotalStats gm)
       = addStats (calculateSetBonuses gm) (fold addStats (map baseStats (equippedItems gm)) zeroStats)"
    by (simp add: calculateTotalStats_def sumBaseStats_items)
  have 10: "total_stats (calculateTotalStats gear4)
       = \<lparr>g_attack = 30, g_defense = 35, g_health = 100, g_speed = 1, g_energy = 35\<rparr>"
    by (simp add: calculateTotalStats_def bonuses_gear4 base_gear4 addStats_def)
  have 11: "total_stats (calculateTotalStats gear3)
       = \<lparr>g_attack = 15, g_defense = 20, g_health = 50, g_speed = - 1, g_energy = 15\<rparr>"
    by (simp add: calculateTotalStats_def bonuses_gear3 base_gear3 addStats_def)
  from 1 2 3 4 5 6 7 8 9 10 11 count_gear4 active_gear4 bonuses_gear4 count_gear3 active_gear3
    bonuses_gear3
  show ?thesis by blast
qed

section \<open>The invariant of CombatStats: proofs\<close>

lemma inv_set_currentHealth:
  assumes "heapInvariant h" and "0 \<le> v" and "v \<le> maxHealth (stats (ents h r))"
  shows "heapInvariant (set_currentHealth r v h)"
  using assms by (simp add: heapInvariant_def statsInvariant_def)

lemma inv_handleAttack:
  assumes "heapInvariant (heap m)"
  shows "heapInvariant (heap (handleAttack a t m))"
proof -
  from assms have t: "statsInvariant (stats (ents (heap m) t))"
    by (simp add: heapInvariant_def)
  show ?thesis
    unfolding heap_handleAttack
    using assms t by (intro inv_set_currentHealth) (auto simp add: statsInvariant_def health_of_def)
qed

lemma heap_handleSkillEffect_heal:
  "se_type e = HEAL \<Longrightarrow>
     heap (handleSkillEffect src (t, e, v) m)
       = set_currentHealth t (min (maxHealth (stats (ents (heap m) t)))
                                  (currentHealth (stats (ents (heap m) t)) + v)) (heap m)"
  by (simp add: handleSkillEffect_def)

lemma inv_handleSkillEffect:
  assumes "heapInvariant (heap m)" and "se_type e = HEAL \<Longrightarrow> 0 \<le> v"
  shows "heapInvariant (heap (handleSkillEffect src (t, e, v) m))"
proof (cases "se_type e")
  case ATTACK
  then show ?thesis using assms(1) by (simp add: handleSkillEffect_def inv_handleAttack)
next
  case HEAL
  from assms(1) have t: "statsInvariant (stats (ents (heap m) t))"
    by (simp add: heapInvariant_def)
  show ?thesis
    unfolding heap_handleSkillEffect_heal [OF HEAL]
    using assms(1) t assms(2) [OF HEAL]
    by (intro inv_set_currentHealth) (auto simp add: statsInvariant_def)
next
  case BUFF
  then show ?thesis using assms(1) by (simp add: handleSkillEffect_def)
next
  case DEBUFF
  then show ?thesis using assms(1) by (simp add: handleSkillEffect_def)
qed

lemma inv_fold_handleSkillEffect:
  assumes "heapInvariant (heap m)" and "list_all (\<lambda>v. 0 \<le> v) (healValues effs)"
  shows "heapInvariant (heap (fold (handleSkillEffect src) effs m))"
  using assms
proof (induction effs arbitrary: m)
  case Nil
  then show ?case by simp
next
  case (Cons eff effs)
  obtain t e v where eff: "eff = (t, e, v)" by (cases eff) auto
  have "heapInvariant (heap (handleSkillEffect src (t, e, v) m))"
    using Cons.prems by (intro inv_handleSkillEffect) (auto simp add: healValues_def eff)
  moreover have "list_all (\<lambda>v. 0 \<le> v) (healValues effs)"
    using Cons.prems(2) by (simp add: healValues_def split: if_splits)
  ultimately show ?case
    using Cons.IH by (simp add: eff)
qed

lemma inv_executeSkill:
  assumes "heapInvariant h" and "0 \<le> energyCost (skillObjs h sk)"
  shows "heapInvariant (snd (executeSkill sk src tgts h))"
proof -
  from assms(1) have every: "statsInvariant (stats (ents h x))" for x
    by (simp add: heapInvariant_def)
  have "statsInvariant (stats (ents (snd (executeSkill sk src tgts h)) x))" for x
    using every [of x] every [of src] assms(2)
    by (auto simp add: executeSkill_def Let_def statsInvariant_def
        set_currentEnergy_def set_currentCooldown_def)
  then show ?thesis by (simp add: heapInvariant_def)
qed

lemma inv_resolve_skill:
  assumes "heapInvariant (heap m)" and "0 \<le> energyCost (skillObjs (heap m) sk)"
    and "list_all (\<lambda>v. 0 \<le> v)
           (healValues (result_effects (fst (executeSkill sk src [tgt] (heap m)))))"
  shows "heapInvariant (heap (resolveAction (SKILL_action src tgt sk) m))"
proof -
  let ?r = "executeSkill sk src [tgt] (heap m)"
  have h: "heapInvariant (heap (m\<lparr>heap := snd ?r\<rparr>))"
    using inv_executeSkill [OF assms(1,2), of src "[tgt]"] by simp
  show ?thesis
    using h inv_fold_handleSkillEffect [OF h assms(3), of src]
    by (simp add: case_prod_unfold Let_def)
qed

lemma inv_applyGearStats_stats:
  assumes "statsInvariant s" and "0 \<le> g_health (total_stats (calculateTotalStats gm))"
    and "0 \<le> g_energy (total_stats (calculateTotalStats gm))"
  shows "statsInvariant (applyGearStats_stats gm s)"
  using assms by (simp add: applyGearStats_stats_def Let_def statsInvariant_def)

lemma inv_applyStatBoost:
  assumes "statsInvariant s" and "pe_type e = STAT_BOOST \<Longrightarrow> 0 \<le> pe_value e"
  shows "statsInvariant (applyStatBoost e s)"
  using assms by (simp add: applyStatBoost_def Let_def statsInvariant_def)

lemma inv_fold_applyStatBoost:
  assumes "statsInvariant s"
    and "list_all (\<lambda>e. 0 \<le> pe_value e) (filter (\<lambda>e. pe_type e = STAT_BOOST) es)"
  shows "statsInvariant (fold applyStatBoost es s)"
  using assms
proof (induction es arbitrary: s)
  case Nil
  then show ?case by simp
next
  case (Cons e es)
  have "statsInvariant (applyStatBoost e s)"
    using Cons.prems by (intro inv_applyStatBoost) auto
  moreover have "list_all (\<lambda>e. 0 \<le> pe_value e) (filter (\<lambda>e. pe_type e = STAT_BOOST) es)"
    using Cons.prems(2) by (simp split: if_splits)
  ultimately show ?case using Cons.IH by simp
qed

lemma inv_applyPermanentPassives_stats:
  assumes "statsInvariant s" and "list_all (\<lambda>e. 0 \<le> pe_value e) (permanentStatBoosts pm)"
  shows "statsInvariant (applyPermanentPassives_stats pm s)"
  unfolding applyPermanentPassives_stats_def
  using assms by (intro inv_fold_applyStatBoost) (simp_all add: permanentStatBoosts_def)

lemma inv_update_entity:
  assumes "heapInvariant h" and "statsInvariant s"
  shows "heapInvariant (h\<lparr>ents := (ents h)(r := (ents h r)\<lparr>stats := s\<rparr>)\<rparr>)"
  using assms by (simp add: heapInvariant_def)

text \<open>
  Claim C3, amended. If every entity satisfies \<open>0 \<le> currentHealth \<le> maxHealth\<close> and
  \<open>0 \<le> currentEnergy \<le> maxEnergy\<close>, then so does every entity after: an attack
  (always); a skill effect whose value, if it is a heal, is not negative; \<open>executeSkill\<close>
  with a skill whose energy cost is not negative; the resolution of a skill action under
  both conditions; \<open>applyGearStats\<close> when the gear's total health and energy are not
  negative; and \<open>applyPermanentPassives\<close> when no permanent \<open>STAT_BOOST\<close> value is
  negative.
\<close>

theorem stats_invariant_preserved:
  assumes "heapInvariant (heap m)"
  shows "heapInvariant (heap (handleAttack a t m))
    \<and> heapInvariant (heap (resolveAction (ATTACK_action a t d) m))
    \<and> ((se_type e = HEAL \<longrightarrow> 0 \<le> v)
         \<longrightarrow> heapInvariant (heap (handleSkillEffect src (t, e, v) m)))
    \<and> (0 \<le> energyCost (skillObjs (heap m) sk)
         \<longrightarrow> heapInvariant (snd (executeSkill sk src tgts (heap m))))
    \<and> (0 \<le> energyCost (skillObjs (heap m) sk)
          \<and> list_all (\<lambda>v. 0 \<le> v)
                (healValues (result_effects (fst (executeSkill sk src [t] (heap m)))))
         \<longrightarrow> heapInvariant (heap (resolveAction (SKILL_action src t sk) m)))
    \<and> (0 \<le> g_health (total_stats (calculateTotalStats gm))
          \<and> 0 \<le> g_energy (total_stats (calculateTotalStats gm))
         \<longrightarrow> heapInvariant (applyGearStats gm r (heap m)))
    \<and> (list_all (\<lambda>e. 0 \<le> pe_value e) (permanentStatBoosts pm)
         \<longrightarrow> heapInvariant (applyPermanentPassives pm r (heap m)))"
proof -
  from assms have r: "statsInvariant (stats (ents (heap m) r))"
    by (simp add: heapInvariant_def)
  have 1: "heapInvariant (heap (handleAttack a t m))"
    using assms by (rule inv_handleAttack)
  have 2: "heapInvariant (heap (resolveAction (ATTACK_action a t d) m))"
    unfolding resolveAction_attack using assms by (intro inv_handleAttack) simp
  have 3: "heapInvariant (heap (handleSkillEffect src (t, e, v) m))"
    if "se_type e = HEAL \<longrightarrow> 0 \<le> v"
    using assms that by (intro inv_handleSkillEffect) auto
  have 4: "heapInvariant (snd (executeSkill sk src tgts (heap m)))"
    if "0 \<le> energyCost (skillObjs (heap m) sk)"
    using assms that by (rule inv_executeSkill)
  have 5: "heapInvariant (heap (resolveAction (SKILL_action src t sk) m))"
    if "0 \<le> energyCost (skillObjs (heap m) sk)
          \<and> list_all (\<lambda>v. 0 \<le> v)
                (healValues (result_effects (fst (executeSkill sk src [t] (heap m)))))"
    using assms that by (intro inv_resolve_skill) auto
  have 6: "heapInvariant (applyGearStats gm r (heap m))"
    if "0 \<le> g_health (total_stats (calculateTotalStats gm))
          \<and> 0 \<le> g_energy (total_stats (calculateTotalStats gm))"
    unfolding applyGearStats_def
    using assms r that by (intro inv_update_entity inv_applyGearStats_stats) auto
  have 7: "heapInvariant (applyPermanentPassives pm r (heap m))"
    if "list_all (\<lambda>e. 0 \<le> pe_value e) (permanentStatBoosts pm)"
    unfolding applyPermanentPassives_def
    using assms r that by (intro inv_update_entity inv_applyPermanentPassives_stats) auto
  from 1 2 3 4 5 6 7 show ?thesis by blast
qed

lemma inv_heap0: "heapInvariant heap0"
  by (simp add: heapInvariant_def statsInvariant_def heap0_def entity_defs)

theorem stats_invariant_preserved_witness:
  "heapInvariant (heap combat0)
   \<and> heapInvariant (heap (handleAttack 0 1 combat0))
   \<and> heapInvariant (heap (resolveAction (ATTACK_action 0 1 10) combat0))
   \<and> heapInvariant (heap (handleSkillEffect 0
        (1, \<lparr>se_type = HEAL, se_value = 50, se_duration = None, se_radius = None\<rparr>, 7) combat0))
   \<and> energyCost (skillObjs (heap combat0) 0) = 30
   \<and> heapInvariant (snd (executeSkill 0 0 [1] (heap combat0)))
   \<and> heapInvariant (heap (resolveAction (SKILL_action 0 1 0) combat0))
   \<and> g_health (total_stats (calculateTotalStats gear3)) = 50
   \<and> g_energy (total_stats (calculateTotalStats gear3)) = 15
   \<and> heapInvariant (applyGearStats gear3 0 (heap combat0))
   \<and> map pe_value (permanentStatBoosts (passives1 toughness)) = [10]
   \<and> heapInvariant (applyPermanentPassives (passives1 toughness) 0 (heap combat0))"
proof -
  have h: "heapInvariant (heap combat0)"
    using inv_heap0 by (simp add: combat0_def)
  have c: "energyCost (skillObjs (heap combat0) 0) = 30"
    by (simp add: combat0_def heap0_def powerStrike_def)
  have hv: "healValues (result_effects (fst (executeSkill 0 0 [Suc 0] (heap combat0)))) = []"
    by (simp add: combat0_def heap0_def powerStrike_def executeSkill_def Let_def healValues_def
          entity_defs)
  have g: "total_stats (calculateTotalStats gear3)
       = \<lparr>g_attack = 15, g_defense = 20, g_health = 50, g_speed = - 1, g_energy = 15\<rparr>"
    by (simp add: calculateTotalStats_def bonuses_gear3 base_gear3 addStats_def)
  have p: "permanentStatBoosts (passives1 toughness)
       = [\<lparr>pe_type = STAT_BOOST, pe_value = 10, chance = None, pe_duration = None\<rparr>]"
    by (simp add: permanentStatBoosts_def passives1_def toughness_def getActivePassives_def)
  from stats_invariant_preserved [where m = combat0 and a = 0 and t = 1 and d = 10
         and e = "\<lparr>se_type = HEAL, se_value = 50, se_duration = None, se_radius = None\<rparr>"
         and v = 7 and src = 0 and sk = 0 and tgts = "[1]" and gm = gear3 and r = 0
         and pm = "passives1 toughness", OF h]
  show ?thesis
    using h by (simp add: c hv g p del: resolveAction.simps)
qed

text \<open>
  Claim C3 as stated fails: the mutations clamp on one side only. The heal of a skill on a
  target of defense 120 has value \<open>floor (50 * 0.15 * (1 - 1.2)) = -2\<close> and takes the
  target's health from 1 to -1; a negative energy cost lifts the energy above its maximum;
  gear or a permanent passive with a negative health bonus takes the health below 0.
\<close>

theorem stats_invariant_counterexample:
  "statsInvariant (stats (ents (heap combatHeal) 0))
   \<and> statsInvariant (stats (ents (heap combatHeal) 1))
   \<and> currentHealth (stats (ents (heap (resolveAction (SKILL_action 0 1 0) combatHeal)) 1)) = - 1
   \<and> \<not> statsInvariant (stats (ents (heap (resolveAction (SKILL_action 0 1 0) combatHeal)) 1))
   \<and> statsInvariant (stats (ents heapRefund 0))
   \<and> \<not> statsInvariant (stats (ents (snd (executeSkill 0 0 [1] heapRefund)) 0))
   \<and> statsInvariant (stats player0)
   \<and> \<not> statsInvariant (applyGearStats_stats cursedGear (stats player0))
   \<and> \<not> statsInvariant (applyPermanentPassives_stats (passives1 frailty) (stats player0))"
proof -
  have 1: "statsInvariant (stats (ents (heap combatHeal) 0))"
    and 2: "statsInvariant (stats (ents (heap combatHeal) 1))"
    by (simp_all add: combatHeal_def combat0_def enemy116_def statsInvariant_def entity_defs)
  have 3: "currentHealth (stats (ents (heap (resolveAction (SKILL_action 0 1 0) combatHeal)) 1))
             = - 1"
    by (simp add: combatHeal_def combat0_def enemy116_def healSkill_def entity_defs
          executeSkill_def skillEffect_50_15_120 handleSkillEffect_def Let_def
          set_currentEnergy_def set_currentCooldown_def)
  have 4: "\<not> statsInvariant (stats (ents (heap (resolveAction (SKILL_action 0 1 0) combatHeal)) 1))"
    unfolding statsInvariant_def 3 by simp
  have 5: "statsInvariant (stats (ents heapRefund 0))"
    and 7: "statsInvariant (stats player0)"
    by (simp_all add: heapRefund_def statsInvariant_def entity_defs)
  have 6: "\<not> statsInvariant (stats (ents (snd (executeSkill 0 0 [1] heapRefund)) 0))"
    by (simp add: heapRefund_def healSkill_def statsInvariant_def entity_defs executeSkill_def
          Let_def set_currentEnergy_def set_currentCooldown_def)
  have 8: "\<not> statsInvariant (applyGearStats_stats cursedGear (stats player0))"
    by (simp add: applyGearStats_stats_def calculateTotalStats_def calculateSetBonuses_def
          sumBaseStats_def countSetPieces_def countPiece_def loadout_values_def cursedGear_def
          leatherHelmet_def addStats_def zeroStats_def applySetEntry_def Let_def
          statsInvariant_def entity_defs)
  have 9: "\<not> statsInvariant (applyPermanentPassives_stats (passives1 frailty) (stats player0))"
    by (simp add: applyPermanentPassives_stats_def passives1_def frailty_def toughness_def
          getActivePassives_def applyStatBoost_def Let_def statsInvariant_def entity_defs)
  from 1 2 3 4 5 6 7 8 9 show ?thesis by blast
qed

end
